theory Spec2Isabelle
  imports Complex_Main "HOL-Library.Sublist" "HOL-Library.AList"
begin

section \<open>Python strings\<close>

text \<open>
  A Python \<^verbatim>\<open>str\<close> is a sequence of Unicode code points, so it is modelled as a list of
  natural numbers. \<open>ascii\<close> writes the ASCII part of a literal; a code point outside
  ASCII is written as a number (233 is e with acute accent, 127474 and 127485 are the
  two regional indicators of the Mexican flag).
\<close>

type_synonym str = "nat list"

definition ascii :: "string \<Rightarrow> str" where
  "ascii s = map of_char s"

text \<open>
  \<^verbatim>\<open>needle in haystack\<close> on two strings: the needle occurs as a contiguous run of
  the haystack. The empty needle occurs in every string.
\<close>

fun str_in :: "str \<Rightarrow> str \<Rightarrow> bool" where
  "str_in needle [] = (needle = [])"
| "str_in needle (c # cs) = (prefix needle (c # cs) \<or> str_in needle cs)"

text \<open>
  \<^verbatim>\<open>str.lower\<close> is a builtin of the language, not code of the repository. Every
  function that calls it takes it as the parameter \<open>lower\<close>, so that what is proved holds
  for Python's own lowercasing. \<open>ascii_lower\<close> is its restriction to ASCII letters, on
  which the two agree; it is used to run the model on ASCII inputs.
\<close>

definition ascii_lower :: "str \<Rightarrow> str" where
  "ascii_lower s = map (\<lambda>c. if 65 \<le> c \<and> c \<le> 90 then c + 32 else c) s"

section \<open>Geographic scope guard\<close>

text \<open>
  \<^verbatim>\<open>SimpleRAGAgent._check_mexico_restriction\<close> (services/simple_rag_agent.py) and
  \<^verbatim>\<open>RAGLangChainAgent._check_mexico_restriction\<close> (services/rag_langchain_agent.py)
  have the same body, character for character: the two keyword lists, the two refusal
  texts and the order of the two scans.
\<close>

definition external_countries :: "str list" where
  "external_countries =
  [ascii ''estados unidos'', ascii ''usa'', ascii ''eeuu'', ascii ''united states'',
   ascii ''america'', ascii ''canada'', ascii ''canad'' @ [225], ascii ''brasil'',
   ascii ''argentina'', ascii ''colombia'', ascii ''chile'', ascii ''peru'',
   ascii ''per'' @ [250], ascii ''venezuela'', ascii ''ecuador'', ascii ''bolivia'',
   ascii ''paraguay'', ascii ''uruguay'', ascii ''espa'' @ [241] @ ascii ''a'',
   ascii ''spain'', ascii ''francia'', ascii ''france'', ascii ''alemania'',
   ascii ''germany'', ascii ''italia'', ascii ''italy'', ascii ''china'', ascii ''japon'',
   ascii ''jap'' @ [243] @ ascii ''n'', ascii ''corea'', ascii ''korea'', ascii ''india'',
   ascii ''rusia'', ascii ''russia'', ascii ''australia'', ascii ''nueva zelanda'',
   ascii ''new zealand'', ascii ''reino unido'', ascii ''uk'', ascii ''inglaterra'']"

definition mexico_indicators :: "str list" where
  "mexico_indicators =
  [ascii ''mexico'', ascii ''m'' @ [233] @ ascii ''xico'', ascii ''estados'',
   ascii ''estado'', ascii ''jalisco'', ascii ''nuevo le'' @ [243] @ ascii ''n'',
   ascii ''ciudad de m'' @ [233] @ ascii ''xico'', ascii ''cdmx'',
   ascii ''yucat'' @ [225] @ ascii ''n'', ascii ''quintana roo'', ascii ''campeche'',
   ascii ''tabasco'', ascii ''chiapas'', ascii ''oaxaca'', ascii ''veracruz'',
   ascii ''puebla'', ascii ''tlaxcala'', ascii ''hidalgo'',
   ascii ''quer'' @ [233] @ ascii ''taro'', ascii ''san luis potos'' @ [237],
   ascii ''tamaulipas'', ascii ''coahuila'', ascii ''durango'', ascii ''zacatecas'',
   ascii ''aguascalientes'', ascii ''guanajuato'', ascii ''michoac'' @ [225] @ ascii ''n'',
   ascii ''guerrero'', ascii ''morelos'', ascii ''mexico'', ascii ''baja california'',
   ascii ''baja california sur'', ascii ''sonora'', ascii ''sinaloa'', ascii ''nayarit'',
   ascii ''colima'']"

text \<open>The refusal returned when a foreign country or region is named.\<close>

definition external_refusal :: str where
  "external_refusal =
   ascii ''Lo siento, pero solo puedo proporcionar informaci'' @ [243] @
   ascii ''n sobre datos de M'' @ [233] @ ascii ''xico. Mi base de datos contiene '' @
   [250] @ ascii ''nicamente informaci'' @ [243] @
   ascii ''n de los 32 estados mexicanos que puedes visualizar en las gr'' @ [225] @
   ascii ''ficas de la plataforma. '' @ [191] @ ascii ''Te gustar'' @ [237] @
   ascii ''a que te ayude con informaci'' @ [243] @ ascii ''n sobre alg'' @ [250] @
   ascii ''n estado espec'' @ [237] @ ascii ''fico de M'' @ [233] @ ascii ''xico? '' @
   [127474, 127485]"

text \<open>The refusal returned when nothing in the message points to Mexico.\<close>

definition mexico_only_refusal :: str where
  "mexico_only_refusal =
   ascii ''Solo puedo ayudarte con informaci'' @ [243] @
   ascii ''n sobre los 32 estados de M'' @ [233] @
   ascii ''xico. Mi base de datos contiene datos espec'' @ [237] @
   ascii ''ficos de seguridad, econom'' @ [237] @
   ascii ''a, infraestructura, educaci'' @ [243] @ ascii ''n y otros par'' @ [225] @
   ascii ''metros de los estados mexicanos que puedes ver en las gr'' @ [225] @
   ascii ''ficas de la plataforma. '' @ [191] @ ascii ''Sobre qu'' @ [233] @
   ascii '' estado de M'' @ [233] @ ascii ''xico te gustar'' @ [237] @
   ascii ''a saber? '' @ [127474, 127485]"

text \<open>
  The method returns a pair: whether the message is in scope, and the refusal text
  (empty when it is). The \<^verbatim>\<open>for\<close> loop over \<open>external_countries\<close> returns the same
  pair at whichever country matches first, so it is the test that some country matches.
\<close>

definition check_mexico_restriction :: "(str \<Rightarrow> str) \<Rightarrow> str \<Rightarrow> bool \<times> str" where
  "check_mexico_restriction lower message =
    (let message_lower = lower message in
     if list_ex (\<lambda>country. str_in country message_lower) external_countries
     then (False, external_refusal)
     else
       let has_mexico_context =
             list_ex (\<lambda>indicator. str_in indicator message_lower) mexico_indicators
       in if \<not> has_mexico_context then (False, mexico_only_refusal)
          else (True, []))"

section \<open>Intent classifier\<close>

text \<open>
  \<^verbatim>\<open>RAGLangChainAgent._determine_intent\<close> (services/rag_langchain_agent.py): an
  \<^verbatim>\<open>if/elif\<close> chain of \<^verbatim>\<open>any(keyword in message_lower ...)\<close> tests.
\<close>

definition comparison_keywords :: "str list" where
  "comparison_keywords =
  [ascii ''comparar'', ascii ''comparaci'' @ [243] @ ascii ''n'', ascii ''vs'',
   ascii ''versus'']"

definition trend_keywords :: "str list" where
  "trend_keywords =
  [ascii ''tendencia'', ascii ''hist'' @ [243] @ ascii ''rico'',
   ascii ''evoluci'' @ [243] @ ascii ''n'', ascii ''cambio'']"

definition recommendation_keywords :: "str list" where
  "recommendation_keywords =
  [ascii ''recomendaci'' @ [243] @ ascii ''n'', ascii ''sugerencia'',
   ascii ''qu'' @ [233] @ ascii '' hacer'']"

definition similar_keywords :: "str list" where
  "similar_keywords = [ascii ''similar'', ascii ''parecido'', ascii ''como'']"

definition rag_keywords :: "str list" where
  "rag_keywords =
  [ascii ''rag'', ascii ''datos'', ascii ''firebase'', ascii ''an'' @ [225] @ ascii ''lisis'']"

definition any_in :: "str list \<Rightarrow> str \<Rightarrow> bool" where
  "any_in keywords message_lower = list_ex (\<lambda>keyword. str_in keyword message_lower) keywords"

definition determine_intent :: "(str \<Rightarrow> str) \<Rightarrow> str \<Rightarrow> str" where
  "determine_intent lower message =
    (let message_lower = lower message in
     if any_in comparison_keywords message_lower then ascii ''comparison''
     else if any_in trend_keywords message_lower then ascii ''trend_analysis''
     else if any_in recommendation_keywords message_lower then ascii ''recommendations''
     else if any_in similar_keywords message_lower then ascii ''similar_states''
     else if any_in rag_keywords message_lower then ascii ''rag_analysis''
     else ascii ''general_analysis'')"

text \<open>
  The classifier in the specification's words: an ordered table of (keyword set,
  intent) pairs, evaluated first match wins, with \<^verbatim>\<open>general_analysis\<close> as the
  fallback. \<open>first_match\<close> walks a table in order and stops at the first bucket one of
  whose keywords occurs in the text.
\<close>

definition priority_table :: "(str list \<times> str) list" where
  "priority_table =
  [(comparison_keywords, ascii ''comparison''),
   (trend_keywords, ascii ''trend_analysis''),
   (recommendation_keywords, ascii ''recommendations''),
   (similar_keywords, ascii ''similar_states''),
   (rag_keywords, ascii ''rag_analysis'')]"

fun first_match :: "(str list \<times> str) list \<Rightarrow> str \<Rightarrow> str" where
  "first_match [] text = ascii ''general_analysis''"
| "first_match ((keywords, intent) # table) text =
     (if \<exists>keyword \<in> set keywords. str_in keyword text then intent
      else first_match table text)"

definition classify_spec :: "(str \<Rightarrow> str) \<Rightarrow> str \<Rightarrow> str" where
  "classify_spec lower message = first_match priority_table (lower message)"

section \<open>State data aggregator\<close>

text \<open>
  \<^verbatim>\<open>str.replace(old, new)\<close>: every occurrence of \<open>old\<close>, found from left to right
  without overlap, becomes \<open>new\<close>. With an empty \<open>old\<close> Python puts \<open>new\<close> before every
  character and at the end.
\<close>

fun replace_from :: "str \<Rightarrow> str \<Rightarrow> str \<Rightarrow> str" where
  "replace_from old new [] = []"
| "replace_from old new (c # cs) =
     (if old \<noteq> [] \<and> prefix old (c # cs)
      then new @ replace_from old new (drop (length old) (c # cs))
      else c # replace_from old new cs)"

definition replace :: "str \<Rightarrow> str \<Rightarrow> str \<Rightarrow> str" where
  "replace old new s =
     (if old = [] then new @ concat (map (\<lambda>c. c # new) s) else replace_from old new s)"

text \<open>
  Exceptions are values. \<open>py_exception\<close> stands for any exception a library call raises
  (the document store client, the HTTP client, the JSON parser); its text is the
  message. A call that can raise returns \<open>py_exception + 'a\<close>, with \<open>Inl\<close> the raise.
\<close>

datatype py_exception = PyException str

text \<open>
  The documents of the four Firestore collections the aggregator reads, with the fields
  it reads. A field read with \<^verbatim>\<open>dict.get\<close> may be absent: it is an option, and the
  default of the \<^verbatim>\<open>get\<close> is applied where the code applies it.
\<close>

record state_doc =
  state_doc_id :: str
  states_name :: str
  state_id_replacement_field :: "str option"

record parameter_doc =
  parameter_doc_id :: str
  name_field :: "str option"
  related_apis :: "str list option"

record special_text_doc =
  states_r :: str
  parameter_r :: str
  added_text :: "str option"

record api_doc =
  api_doc_id :: str
  dynamic_url :: "str option"
  apis_name :: "str option"

text \<open>
  The answer of an HTTP GET: the status and what \<^verbatim>\<open>response.json()\<close> gives, which is
  the payload or a raise on a body that is not JSON. The payload is untyped in the
  source; it is the type parameter \<open>'j\<close>.
\<close>

record 'j http_response =
  status :: nat
  json :: "py_exception + 'j"

text \<open>
  Everything outside the process that the aggregator reads: the four collections (a
  read of a collection returns its documents in the store's order, or raises) and the
  external metric APIs, as a function from the URL to the outcome of the GET (the
  response, or a raise on a connection failure).
\<close>

record 'j world =
  states :: "py_exception + state_doc list"
  parameters :: "py_exception + parameter_doc list"
  special_text :: "py_exception + special_text_doc list"
  apis :: "py_exception + api_doc list"
  http_get :: "str \<Rightarrow> py_exception + 'j http_response"

text \<open>
  The entry appended to \<^verbatim>\<open>datos_apis\<close>, a dict with the keys \<^verbatim>\<open>nombre\<close>,
  \<^verbatim>\<open>url\<close> and \<^verbatim>\<open>datos\<close>; the dataclasses \<^verbatim>\<open>ParametroData\<close> and
  \<^verbatim>\<open>EstadoData\<close>. Their fields \<^verbatim>\<open>id\<close> and \<^verbatim>\<open>nombre\<close> carry the class in
  their name here, since a field name is a constant of the theory. The dict
  \<^verbatim>\<open>parametros\<close> is an association list in insertion order, as a Python dict is;
  \<^const>\<open>AList.update\<close> overwrites the value of a key already there, in place, and
  appends a new key.
\<close>

record 'j api_entry =
  nombre :: str
  url :: str
  datos :: 'j

record 'j ParametroData =
  parametro_id :: str
  parametro_nombre :: str
  texto_analisis :: str
  datos_apis :: "'j api_entry list"

record 'j EstadoData =
  estado_id :: str
  estado_nombre :: str
  state_id_replacement :: "str option"
  parametros :: "(str \<times> 'j ParametroData) list"

definition texto_no_encontrado :: str where
  "texto_no_encontrado =
   ascii ''No se encontr'' @ [243] @ ascii '' un texto de an'' @ [225] @
   ascii ''lisis para este par'' @ [225] @ ascii ''metro.''"

text \<open>
  Step 4, the body of the loop over \<^verbatim>\<open>related_api_ids\<close> for a source whose document
  exists: substitute the state id in the templated URL and, if the URL is not empty,
  GET it. The \<^verbatim>\<open>try\<close> around the GET catches every exception, and a status other than
  200 only prints a warning: in both cases nothing is appended. The result is what is
  appended to \<^verbatim>\<open>datos_apis\<close>: one entry or none.
\<close>

definition call_api :: "'j world \<Rightarrow> api_doc \<Rightarrow> str \<Rightarrow> 'j api_entry list" where
  "call_api w api_data sid =
    (let api_url = replace (ascii ''{state_id}'') sid
                     (case dynamic_url api_data of None \<Rightarrow> [] | Some u \<Rightarrow> u)
     in if api_url \<noteq> [] then
          (case http_get w api_url of
             Inl e \<Rightarrow> []
           | Inr response \<Rightarrow>
               if status response = 200 then
                 (case json response of
                    Inl e \<Rightarrow> []
                  | Inr api_data_response \<Rightarrow>
                      [\<lparr>nombre = (case apis_name api_data of None \<Rightarrow> [] | Some n \<Rightarrow> n),
                        url = api_url, datos = api_data_response\<rparr>])
               else [])
        else [])"

text \<open>
  The loop \<^verbatim>\<open>for api_id in related_api_ids\<close>.
  \<^verbatim>\<open>apis_ref.document(api_id).get()\<close> is outside the inner \<^verbatim>\<open>try\<close>: a raise of
  the store leaves the loop. A document that does not exist is passed over.
\<close>

fun fetch_related_apis ::
  "'j world \<Rightarrow> str \<Rightarrow> str list \<Rightarrow> 'j api_entry list \<Rightarrow> py_exception + 'j api_entry list"
where
  "fetch_related_apis w sid [] fetched = Inr fetched"
| "fetch_related_apis w sid (api_id # api_ids) fetched =
     (case apis w of
        Inl e \<Rightarrow> Inl e
      | Inr docs \<Rightarrow>
          (case find (\<lambda>d. api_doc_id d = api_id) docs of
             None \<Rightarrow> fetch_related_apis w sid api_ids fetched
           | Some api_data \<Rightarrow>
               fetch_related_apis w sid api_ids (fetched @ call_api w api_data sid)))"

text \<open>
  Steps 3 and 4 for one parameter document that has a name: the analysis text of
  (state id, parameter id), the placeholder on a miss or when the document found has
  no \<^verbatim>\<open>added_text\<close>, and the metric data, fetched only when the parameter declares
  sources and the state has a non-empty \<^verbatim>\<open>state_id_replacement\<close>.
\<close>

definition build_parametro ::
  "'j world \<Rightarrow> str \<Rightarrow> str option \<Rightarrow> parameter_doc \<Rightarrow> str \<Rightarrow> py_exception + 'j ParametroData"
where
  "build_parametro w eid sid_opt param_doc param_name =
    (case special_text w of
       Inl e \<Rightarrow> Inl e
     | Inr texts \<Rightarrow>
         let text_docs = take 1 (filter (\<lambda>t. states_r t = eid \<and>
                                   parameter_r t = parameter_doc_id param_doc) texts);
             texto = (case text_docs of
                        [] \<Rightarrow> texto_no_encontrado
                      | text_data # _ \<Rightarrow>
                          (case added_text text_data of
                             None \<Rightarrow> texto_no_encontrado | Some t \<Rightarrow> t));
             related_api_ids = (case related_apis param_doc of None \<Rightarrow> [] | Some ids \<Rightarrow> ids);
             outcome = (case sid_opt of
                          None \<Rightarrow> Inr []
                        | Some sid \<Rightarrow>
                            if related_api_ids \<noteq> [] \<and> sid \<noteq> []
                            then fetch_related_apis w sid related_api_ids []
                            else Inr [])
         in (case outcome of
               Inl e \<Rightarrow> Inl e
             | Inr fetched \<Rightarrow>
                 Inr \<lparr>parametro_id = parameter_doc_id param_doc, parametro_nombre = param_name,
                      texto_analisis = texto, datos_apis = fetched\<rparr>))"

text \<open>
  The loop \<^verbatim>\<open>for param_doc in param_docs\<close>: a document without a name, or with an
  empty one, is skipped (\<^verbatim>\<open>continue\<close>); the others are stored under their name.
\<close>

fun collect_parametros ::
  "'j world \<Rightarrow> str \<Rightarrow> str option \<Rightarrow> parameter_doc list \<Rightarrow> (str \<times> 'j ParametroData) list \<Rightarrow>
   py_exception + (str \<times> 'j ParametroData) list"
where
  "collect_parametros w eid sid_opt [] parametros_data = Inr parametros_data"
| "collect_parametros w eid sid_opt (param_doc # param_docs) parametros_data =
     (case name_field param_doc of
        None \<Rightarrow> collect_parametros w eid sid_opt param_docs parametros_data
      | Some param_name \<Rightarrow>
          if param_name = [] then collect_parametros w eid sid_opt param_docs parametros_data
          else
            (case build_parametro w eid sid_opt param_doc param_name of
               Inl e \<Rightarrow> Inl e
             | Inr p \<Rightarrow>
                 collect_parametros w eid sid_opt param_docs
                   (AList.update param_name p parametros_data)))"

text \<open>
  \<^verbatim>\<open>RAGAgent.obtener_datos_estado_completo\<close> (rag_agent.py). The whole body is inside
  \<^verbatim>\<open>try ... except Exception: return None\<close>, so every raise that reaches the body
  gives \<open>None\<close>, as a state that is not found does. The query on \<^verbatim>\<open>states\<close> is
  \<^verbatim>\<open>where('states_name', '==', estado_nombre.lower()).limit(1)\<close>; the result keeps the
  name as the caller wrote it (\<^verbatim>\<open>nombre=estado_nombre\<close>).
\<close>

definition obtener_datos_estado_completo ::
  "(str \<Rightarrow> str) \<Rightarrow> 'j world \<Rightarrow> str \<Rightarrow> 'j EstadoData option"
where
  "obtener_datos_estado_completo lower w nombre_buscado =
    (case states w of
       Inl e \<Rightarrow> None
     | Inr docs \<Rightarrow>
         (case take 1 (filter (\<lambda>d. states_name d = lower nombre_buscado) docs) of
            [] \<Rightarrow> None
          | estado_data # _ \<Rightarrow>
              (case parameters w of
                 Inl e \<Rightarrow> None
               | Inr param_docs \<Rightarrow>
                   (case collect_parametros w (state_doc_id estado_data)
                           (state_id_replacement_field estado_data) param_docs [] of
                      Inl e \<Rightarrow> None
                    | Inr parametros_data \<Rightarrow>
                        Some \<lparr>estado_id = state_doc_id estado_data,
                              estado_nombre = nombre_buscado,
                              state_id_replacement = state_id_replacement_field estado_data,
                              parametros = parametros_data\<rparr>))))"

text \<open>
  \<^verbatim>\<open>RAGService.consulta_estado_con_rag\<close> (rag_service.py), as its callers in the chat
  agent and in the tools call it: without \<^verbatim>\<open>pregunta\<close>, so that steps 2 and 6 (the
  generated answer) do not run. \<open>None\<close> from the aggregator is raised as
  \<^verbatim>\<open>HTTPException(status_code=404)\<close>. A non-empty \<^verbatim>\<open>parametros\<close> keeps the
  parameters named in it, in its order.
\<close>

datatype http_exception = HTTPException nat str

record 'j datos_parametro =
  dp_texto_analisis :: str
  dp_datos_apis :: "'j api_entry list"

record 'j respuesta =
  estado :: str
  datos_por_parametro :: "(str \<times> 'j datos_parametro) list"
  link_pdf_estado :: "str option"
  rag_habilitado :: bool
  timestamp :: str

fun filtrar_parametros ::
  "(str \<times> 'a) list \<Rightarrow> str list \<Rightarrow> (str \<times> 'a) list \<Rightarrow> (str \<times> 'a) list"
where
  "filtrar_parametros disponibles [] filtrados = filtrados"
| "filtrar_parametros disponibles (param # params) filtrados =
     (case map_of disponibles param of
        None \<Rightarrow> filtrar_parametros disponibles params filtrados
      | Some v \<Rightarrow> filtrar_parametros disponibles params (AList.update param v filtrados))"

definition consulta_estado_con_rag ::
  "(str \<Rightarrow> str) \<Rightarrow> 'j world \<Rightarrow> str \<Rightarrow> str list option \<Rightarrow> http_exception + 'j respuesta"
where
  "consulta_estado_con_rag lower w nombre_buscado params =
    (case obtener_datos_estado_completo lower w nombre_buscado of
       None \<Rightarrow>
         Inl (HTTPException 404
                (ascii ''No se encontraron datos para el estado '' @ nombre_buscado))
     | Some estado_data \<Rightarrow>
         let parametros_filtrados =
               (case params of
                  None \<Rightarrow> parametros estado_data
                | Some ps \<Rightarrow>
                    if ps \<noteq> [] then filtrar_parametros (parametros estado_data) ps []
                    else parametros estado_data)
         in Inr \<lparr>estado = nombre_buscado,
                 datos_por_parametro =
                   map (\<lambda>(param_name, param_data).
                          (param_name,
                           \<lparr>dp_texto_analisis = texto_analisis param_data,
                            dp_datos_apis = datos_apis param_data\<rparr>))
                       parametros_filtrados,
                 link_pdf_estado = None,
                 rag_habilitado = True,
                 timestamp = estado_id estado_data\<rparr>)"

section \<open>Notions used to state the aggregator's properties\<close>

text \<open>
  A GET has failed when the client raised, when the status is not 200, or when the body
  could not be read as JSON: the three outcomes after which \<open>call_api\<close> appends nothing.
\<close>

definition failed_fetch :: "py_exception + 'j http_response \<Rightarrow> bool" where
  "failed_fetch outcome =
    (case outcome of
       Inl e \<Rightarrow> True
     | Inr response \<Rightarrow> status response \<noteq> 200 \<or> (case json response of Inl e \<Rightarrow> True | Inr j \<Rightarrow> False))"

text \<open>The URL that \<open>call_api\<close> fetches for a source: the template with the state id put in.\<close>

definition resolved_url :: "api_doc \<Rightarrow> str \<Rightarrow> str" where
  "resolved_url api_data sid =
     replace (ascii ''{state_id}'') sid
       (case dynamic_url api_data of None \<Rightarrow> [] | Some template \<Rightarrow> template)"

text \<open>A view with the entries fetched from the URL \<open>u\<close> taken out of every metric list.\<close>

definition drop_source :: "str \<Rightarrow> 'j ParametroData \<Rightarrow> 'j ParametroData" where
  "drop_source u p = p\<lparr>datos_apis := filter (\<lambda>entry. url entry \<noteq> u) (datos_apis p)\<rparr>"

definition without_source :: "str \<Rightarrow> 'j EstadoData \<Rightarrow> 'j EstadoData" where
  "without_source u v =
     v\<lparr>parametros := map (\<lambda>(param_name, p). (param_name, drop_source u p)) (parametros v)\<rparr>"


text \<open>
  A small world to run the model on: the state jalisco with the API id 14, two
  parameters (the first with one metric source and a stored analysis text, the second
  with neither), and one metric API that answers 200 with the payload 7.
\<close>

definition example_catalog :: "parameter_doc list" where
  "example_catalog =
    [\<lparr>parameter_doc_id = ascii ''p1'', name_field = Some (ascii ''Seguridad''),
       related_apis = Some [ascii ''a1'']\<rparr>,
     \<lparr>parameter_doc_id = ascii ''p2'', name_field = Some (ascii ''Salud''),
       related_apis = None\<rparr>]"

definition example_world :: "nat world" where
  "example_world =
    \<lparr>states = Inr [\<lparr>state_doc_id = ascii ''s1'', states_name = ascii ''jalisco'',
                     state_id_replacement_field = Some (ascii ''14'')\<rparr>],
     parameters = Inr example_catalog,
     special_text = Inr [\<lparr>states_r = ascii ''s1'', parameter_r = ascii ''p1'',
                           added_text = Some (ascii ''Estable'')\<rparr>],
     apis = Inr [\<lparr>api_doc_id = ascii ''a1'', dynamic_url = Some (ascii ''http://x/{state_id}''),
                   apis_name = Some (ascii ''Delitos'')\<rparr>],
     http_get = (\<lambda>address. if address = ascii ''http://x/14''
                      then Inr \<lparr>status = 200, json = Inr 7\<rparr>
                      else Inl (PyException (ascii ''unreachable'')))\<rparr>"

text \<open>What aggregation returns for \<^verbatim>\<open>"Jalisco"\<close> in that world.\<close>

definition example_seguridad :: "nat ParametroData" where
  "example_seguridad =
    \<lparr>parametro_id = ascii ''p1'', parametro_nombre = ascii ''Seguridad'',
     texto_analisis = ascii ''Estable'',
     datos_apis = [\<lparr>nombre = ascii ''Delitos'', url = ascii ''http://x/14'', datos = 7\<rparr>]\<rparr>"

definition example_view :: "nat EstadoData" where
  "example_view =
    \<lparr>estado_id = ascii ''s1'', estado_nombre = ascii ''Jalisco'',
     state_id_replacement = Some (ascii ''14''),
     parametros =
       [(ascii ''Seguridad'', example_seguridad),
        (ascii ''Salud'',
         \<lparr>parametro_id = ascii ''p2'', parametro_nombre = ascii ''Salud'',
          texto_analisis = texto_no_encontrado, datos_apis = []\<rparr>)]\<rparr>"


text \<open>The same world with its one metric API answering 503.\<close>

definition degraded_world :: "nat world" where
  "degraded_world =
     example_world\<lparr>http_get := (http_get example_world)
        (ascii ''http://x/14'' := Inr \<lparr>status = 503, json = Inl (PyException [])\<rparr>)\<rparr>"

section \<open>Similar-states tool\<close>

text \<open>
  \<^verbatim>\<open>buscar_estados_similares\<close> (tools/rag_tools.py). The tool returns one of two dicts:
  on success the keys \<^verbatim>\<open>estado_referencia\<close>, \<^verbatim>\<open>parametro\<close>,
  \<^verbatim>\<open>estados_similares\<close>, \<^verbatim>\<open>rag_habilitado\<close>, \<^verbatim>\<open>timestamp\<close> and
  \<^verbatim>\<open>success: True\<close>; from the outer \<^verbatim>\<open>except\<close> the keys
  \<^verbatim>\<open>estado_referencia\<close>, \<^verbatim>\<open>parametro\<close>, \<^verbatim>\<open>error\<close> and \<^verbatim>\<open>success: False\<close>.
  The error keeps the exception itself where the code stores its \<^verbatim>\<open>str\<close>. The
  time stamp \<^verbatim>\<open>datetime.now().isoformat()\<close> is the parameter \<open>now\<close>.
\<close>

record 'j estado_similar =
  similar_estado :: str
  similitud_score :: real
  similar_datos :: "'j respuesta"

datatype 'j busqueda =
    Encontrados str str "'j estado_similar list" bool str
  | Fallida str str http_exception

fun success :: "'j busqueda \<Rightarrow> bool" where
  "success (Encontrados estado_referencia parametro similares habilitado stamp) = True"
| "success (Fallida estado_referencia parametro e) = False"

definition todos_estados :: "str list" where
  "todos_estados =
    [ascii ''jalisco'', ascii ''nuevo leon'', ascii ''ciudad de mexico'', ascii ''queretaro'',
     ascii ''yucatan'', ascii ''quintana roo'', ascii ''baja california'', ascii ''sonora'',
     ascii ''chihuahua'', ascii ''coahuila'']"

text \<open>
  The loop \<^verbatim>\<open>for estado in estados_similares[:5]\<close>. It runs over a copy of the first
  five elements of the result list, not over \<^verbatim>\<open>estados_a_comparar\<close>. An element of
  that list is a dict, so the call
  \<^verbatim>\<open>rag_service.consulta_estado_con_rag(estado, [parametro])\<close> in the body would raise
  on \<^verbatim>\<open>estado.lower()\<close>; the inner \<^verbatim>\<open>except\<close> catches it and continues, and
  nothing is appended.
\<close>

fun comparar_similares ::
  "'j estado_similar list \<Rightarrow> 'j estado_similar list \<Rightarrow> 'j estado_similar list"
where
  "comparar_similares [] estados_similares = estados_similares"
| "comparar_similares (element # elements) estados_similares =
     comparar_similares elements estados_similares"

definition buscar_estados_similares ::
  "(str \<Rightarrow> str) \<Rightarrow> 'j world \<Rightarrow> str \<Rightarrow> str \<Rightarrow> str \<Rightarrow> 'j busqueda"
where
  "buscar_estados_similares lower w now estado_referencia parametro =
    (case consulta_estado_con_rag lower w estado_referencia (Some [parametro]) of
       Inl e \<Rightarrow> Fallida estado_referencia parametro e
     | Inr datos_referencia \<Rightarrow>
         let estados_a_comparar =
               filter (\<lambda>e. e \<noteq> lower estado_referencia) todos_estados;
             estados_similares = [];
             estados_similares = comparar_similares (take 5 estados_similares) estados_similares
         in Encontrados estado_referencia parametro estados_similares True now)"

section \<open>Chat-completion client\<close>

text \<open>
  \<^verbatim>\<open>CerebrasClient\<close> (services/cerebras_client.py). The provider is outside the
  process: it is a function from the payload posted to what comes back, which is a
  response (its status, its text, and what \<^verbatim>\<open>response.json()\<close> gives) or a raise of
  the HTTP client. The parsed body has the shape of a chat completion, every key of
  which may be missing: \<^verbatim>\<open>error\<close>, and \<^verbatim>\<open>choices\<close>, a list of choices with a
  \<^verbatim>\<open>message\<close> that has a \<^verbatim>\<open>content\<close>. Values of another JSON type under these keys
  are outside the model.
\<close>

record chat_message =
  message_content :: "str option"

record chat_choice =
  choice_message :: "chat_message option"

record chat_body =
  body_error :: "str option"
  body_choices :: "chat_choice list option"

datatype provider_reply =
    Responded nat str "py_exception + chat_body"
  | Unreachable py_exception

record chat_payload =
  payload_messages :: "(str \<times> str) list list"
  payload_temperature :: real
  payload_max_completion_tokens :: nat
  payload_stream :: bool
  payload_top_p :: real
  payload_reasoning_effort :: str

text \<open>The decimal digits of a number, as the f-string writes \<^verbatim>\<open>response.status\<close>.\<close>

fun str_of_nat :: "nat \<Rightarrow> str" where
  "str_of_nat n = (if n < 10 then [48 + n] else str_of_nat (n div 10) @ [48 + n mod 10])"

text \<open>
  What \<^verbatim>\<open>chat_completion\<close> returns without streaming: the parsed body of a 200, or
  the dict with the keys \<^verbatim>\<open>error\<close> and \<^verbatim>\<open>details\<close> that it builds for any other
  status and, in its \<^verbatim>\<open>except\<close>, for any raise (of the client, or of
  \<^verbatim>\<open>response.json()\<close>).
\<close>

datatype chat_result = Parsed chat_body | ErrorDict str str

definition chat_completion ::
  "(chat_payload \<Rightarrow> provider_reply) \<Rightarrow> (str \<times> str) list list \<Rightarrow> real \<Rightarrow> nat \<Rightarrow> chat_result"
where
  "chat_completion post messages temperature max_tokens =
    (case post \<lparr>payload_messages = messages, payload_temperature = temperature,
                 payload_max_completion_tokens = max_tokens, payload_stream = False,
                 payload_top_p = 1, payload_reasoning_effort = ascii ''high''\<rparr> of
       Responded code body_text parsed \<Rightarrow>
         if code = 200 then
           (case parsed of
              Inl (PyException text) \<Rightarrow> ErrorDict (ascii ''Connection Error'') text
            | Inr body \<Rightarrow> Parsed body)
         else ErrorDict (ascii ''API Error: '' @ str_of_nat code) body_text
     | Unreachable (PyException text) \<Rightarrow> ErrorDict (ascii ''Connection Error'') text)"

text \<open>
  \<^verbatim>\<open>CerebrasClient.generate_response\<close>: the text of the first choice; the text
  \<^verbatim>\<open>Error: ...\<close> when the result has the key \<^verbatim>\<open>error\<close>; a fixed text when a key
  or the first choice is missing (\<^verbatim>\<open>except (KeyError, IndexError)\<close>). It returns a
  string in every case and raises nothing.
\<close>

definition generate_response ::
  "(chat_payload \<Rightarrow> provider_reply) \<Rightarrow> str \<Rightarrow> str \<Rightarrow> real \<Rightarrow> nat \<Rightarrow> str"
where
  "generate_response post system_prompt user_message temperature max_tokens =
    (let messages = [[(ascii ''role'', ascii ''system''), (ascii ''content'', system_prompt)],
                     [(ascii ''role'', ascii ''user''), (ascii ''content'', user_message)]]
     in case chat_completion post messages temperature max_tokens of
          ErrorDict failure details \<Rightarrow> ascii ''Error: '' @ failure
        | Parsed body \<Rightarrow>
            (case body_error body of
               Some failure \<Rightarrow> ascii ''Error: '' @ failure
             | None \<Rightarrow>
                 (case body_choices body of
                    None \<Rightarrow> ascii ''Error: No se pudo obtener la respuesta''
                  | Some [] \<Rightarrow> ascii ''Error: No se pudo obtener la respuesta''
                  | Some (choice # _) \<Rightarrow>
                      (case choice_message choice of
                         None \<Rightarrow> ascii ''Error: No se pudo obtener la respuesta''
                       | Some first_message \<Rightarrow>
                           (case message_content first_message of
                              None \<Rightarrow> ascii ''Error: No se pudo obtener la respuesta''
                            | Some text \<Rightarrow> text)))))"

section \<open>Chat agent\<close>

text \<open>
  \<^verbatim>\<open>SimpleRAGAgent\<close> (services/simple_rag_agent.py). The fields of
  \<^verbatim>\<open>UserContext\<close> that the agent reads carry the prefix \<open>ctx\<close>, since the envelope
  has fields of the same names.
\<close>

record user_context =
  ctx_session_id :: "str option"
  ctx_current_state :: "str option"
  ctx_rag_enabled :: bool

text \<open>
  \<^verbatim>\<open>ChatResponseStructured\<close>, with the fields the agent sets. The fields it never
  sets keep their defaults in every envelope and are left out, as is the time stamp.
  A field the agent leaves out of a call has its default here: the empty list,
  \<open>False\<close>, \<open>None\<close>.
\<close>

record entity_data_dict =
  states_mentioned :: "str list"
  entities_general :: "str list"
  intent :: str

record chat_response_structured =
  response :: str
  confidence :: real
  sources :: "str list"
  suggested_actions :: "str list"
  follow_up_questions :: "str list"
  model_used :: str
  session_id :: str
  memory_used :: bool
  rag_enabled :: bool
  entity_data :: "entity_data_dict option"

definition mexico_keywords :: "str list" where
  "mexico_keywords =
    [ascii ''mexico'', ascii ''m'' @ [233] @ ascii ''xico'', ascii ''estados'', ascii ''estado'',
     ascii ''ciudad'', ascii ''municipio'', ascii ''seguridad'', ascii ''economia'',
     ascii ''econom'' @ [237] @ ascii ''a'', ascii ''desarrollo'', ascii ''infraestructura'',
     ascii ''educacion'', ascii ''educaci'' @ [243] @ ascii ''n'', ascii ''salud'',
     ascii ''empleo'', ascii ''pobreza'', ascii ''crimen'']"

definition extract_entities_from_message :: "(str \<Rightarrow> str) \<Rightarrow> str \<Rightarrow> str list" where
  "extract_entities_from_message lower message =
    (let message_lower = lower message
     in filter (\<lambda>keyword. str_in keyword message_lower) mexico_keywords)"

text \<open>The keywords of the second condition of \<^verbatim>\<open>use_rag\<close>.\<close>

definition rag_trigger_keywords :: "str list" where
  "rag_trigger_keywords =
    [ascii ''estado'', ascii ''jalisco'', ascii ''mexico'', ascii ''an'' @ [225] @ ascii ''lisis'',
     ascii ''datos'', ascii ''par'' @ [225] @ ascii ''metro'', ascii ''rag'']"

text \<open>
  The three system prompts. The first is the f-string of the retrieval branch, with
  the state and the serialized data put in; the lines of the triple-quoted literals
  keep the indentation they have in the source.
\<close>

definition rag_system_prompt :: "str \<Rightarrow> str \<Rightarrow> str" where
  "rag_system_prompt queried dumped =
   ascii ''Eres un experto en an'' @ [225] @ ascii ''lisis de datos de M'' @ [233] @
   ascii ''xico con acceso a informaci'' @ [243] @ ascii ''n RAG actualizada.'' @
   [10] @ ascii ''                    '' @ [10] @
   ascii ''                    Datos RAG disponibles para '' @ queried @
   ascii '':'' @ [10] @ ascii ''                    '' @ dumped @
   [10] @ ascii ''                    '' @ [10] @
   ascii ''                    Responde la pregunta del usuario bas'' @ [225] @
   ascii ''ndote en estos datos reales y actualizados.'' @ [10] @
   ascii ''                    Siempre menciona que la informaci'' @ [243] @
   ascii ''n proviene de datos RAG actualizados.'' @ [10] @
   ascii ''                    ''"

definition fallback_system_prompt :: str where
  "fallback_system_prompt =
   ascii ''Eres un experto en an'' @ [225] @ ascii ''lisis de datos de M'' @ [233] @
   ascii ''xico. Responde la pregunta del usuario.''"

definition plain_system_prompt :: str where
  "plain_system_prompt =
   ascii ''Eres un experto en an'' @ [225] @ ascii ''lisis de datos de M'' @ [233] @
   ascii ''xico. '' @ [10] @
   ascii ''                Responde la pregunta del usuario de manera profesional y '' @
   [250] @ ascii ''til.'' @ [10] @
   ascii ''                Siempre menciona que solo tienes informaci'' @ [243] @
   ascii ''n sobre los 32 estados de M'' @ [233] @ ascii ''xico.''"

definition cerebras_model :: str where
  "cerebras_model = ascii ''cerebras-gpt-oss-120b''"

text \<open>\<^verbatim>\<open>x or "default"\<close> on an optional string: the default for \<open>None\<close> and for the empty string.\<close>

definition or_default :: "str option \<Rightarrow> str \<Rightarrow> str" where
  "or_default x fallback = (case x of None \<Rightarrow> fallback | Some s \<Rightarrow> if s = [] then fallback else s)"

text \<open>The envelope of a scope-guard refusal.\<close>

definition refusal_envelope :: "str \<Rightarrow> user_context \<Rightarrow> chat_response_structured" where
  "refusal_envelope restriction_message uc =
    \<lparr>response = restriction_message,
     confidence = 1,
     sources = [ascii ''Sistema de restricciones MX32''],
     suggested_actions =
       [ascii ''Ver datos de estados mexicanos'',
        ascii ''Explorar par'' @ [225] @ ascii ''metros disponibles'',
        ascii ''Consultar informaci'' @ [243] @ ascii ''n de seguridad'',
        ascii ''Analizar datos econ'' @ [243] @ ascii ''micos''],
     follow_up_questions =
       [[191] @ ascii ''Sobre qu'' @ [233] @ ascii '' estado de M'' @ [233] @
          ascii ''xico te gustar'' @ [237] @ ascii ''a saber?'',
        [191] @ ascii ''Qu'' @ [233] @ ascii '' par'' @ [225] @
          ascii ''metro te interesa analizar?'',
        [191] @ ascii ''Te gustar'' @ [237] @ ascii ''a ver una comparaci'' @ [243] @
          ascii ''n entre estados?''],
     model_used = cerebras_model,
     session_id = or_default (ctx_session_id uc) (ascii ''default''),
     memory_used = True,
     rag_enabled = False,
     entity_data = None\<rparr>"

text \<open>The envelope of the outer \<^verbatim>\<open>except\<close>: the degraded one.\<close>

definition apology :: str where
  "apology =
   ascii ''Lo siento, ocurri'' @ [243] @
   ascii '' un error al procesar tu consulta. Por favor, int'' @ [233] @
   ascii ''ntalo de nuevo.''"

definition degraded_envelope :: "user_context \<Rightarrow> chat_response_structured" where
  "degraded_envelope uc =
    \<lparr>response = apology,
     confidence = 0,
     sources = [],
     suggested_actions = [],
     follow_up_questions = [],
     model_used = cerebras_model,
     session_id = or_default (ctx_session_id uc) (ascii ''default''),
     memory_used = False,
     rag_enabled = False,
     entity_data = None\<rparr>"

text \<open>
  The branch on \<^verbatim>\<open>use_rag\<close>: the text of the answer, whether retrieval was used, the
  sources and the confidence. In the retrieval branch the state queried is
  \<^verbatim>\<open>user_context.current_state or "jalisco"\<close>; an exception of the retrieval (the
  404 of the service) is caught and the provider is asked again with the fallback
  prompt. \<^verbatim>\<open>json.dumps\<close> is the parameter \<open>json_dumps\<close>.
\<close>

definition answer_branch ::
  "(str \<Rightarrow> str) \<Rightarrow> 'j world \<Rightarrow> (chat_payload \<Rightarrow> provider_reply) \<Rightarrow> ('j respuesta \<Rightarrow> str) \<Rightarrow>
   user_context \<Rightarrow> str \<Rightarrow> bool \<Rightarrow> str \<times> bool \<times> str list \<times> real"
where
  "answer_branch lower w post json_dumps uc user_message use_rag =
    (if use_rag then
       (let queried = or_default (ctx_current_state uc) (ascii ''jalisco'')
        in case consulta_estado_con_rag lower w queried None of
             Inr rag_data \<Rightarrow>
               (generate_response post (rag_system_prompt queried (json_dumps rag_data))
                  user_message 0.7 2000,
                True,
                [ascii ''Base de datos MX32'', ascii ''RAG Analysis'', ascii ''Cerebras AI''],
                0.9)
           | Inl e \<Rightarrow>
               (generate_response post fallback_system_prompt user_message 0.7 2000,
                False,
                [ascii ''Base de datos MX32'', ascii ''Cerebras AI''],
                0.8))
     else
       (generate_response post plain_system_prompt user_message 0.7 2000,
        False,
        [ascii ''Base de datos MX32'', ascii ''Cerebras AI''],
        0.8))"

text \<open>The suggested actions and the follow-up questions, before they are cut to 5 and 3.\<close>

definition suggest_actions :: "user_context \<Rightarrow> str list \<Rightarrow> str list" where
  "suggest_actions uc entities =
    (case ctx_current_state uc of
       None \<Rightarrow> []
     | Some current \<Rightarrow>
         if current = [] then []
         else [ascii ''Ver datos completos de '' @ current,
               ascii ''Comparar '' @ current @ ascii '' con otros estados''])
    @ (if ascii ''seguridad'' \<in> set entities
       then [ascii ''Ver an'' @ [225] @ ascii ''lisis detallado de seguridad'',
             ascii ''Comparar indicadores de seguridad'']
       else [])
    @ (if ascii ''economia'' \<in> set entities \<or> ascii ''econom'' @ [237] @ ascii ''a'' \<in> set entities
       then [ascii ''Analizar indicadores econ'' @ [243] @ ascii ''micos'',
             ascii ''Ver datos de empleo'']
       else [])"

definition follow_up :: "user_context \<Rightarrow> str list \<Rightarrow> str list" where
  "follow_up uc entities =
    (case ctx_current_state uc of
       None \<Rightarrow> []
     | Some current \<Rightarrow>
         if current = [] then []
         else [[191] @ ascii ''Te gustar'' @ [237] @ ascii ''a comparar '' @ current @
                 ascii '' con otros estados?'',
               [191] @ ascii ''Qu'' @ [233] @ ascii '' otros par'' @ [225] @
                 ascii ''metros te interesan de '' @ current @ ascii ''?''])
    @ (if ascii ''seguridad'' \<in> set entities
       then [[191] @ ascii ''Te interesa analizar las tendencias de seguridad?'']
       else [])"

text \<open>
  The conversation memory of the agent: the dict from session id to the list of
  messages, each message a dict with the keys \<^verbatim>\<open>role\<close> and \<^verbatim>\<open>content\<close>. The
  update appends the two messages of the turn to the list of the session and, when
  the list is longer than 20, keeps its last 20 (\<^verbatim>\<open>conversation_memory[-20:]\<close>).
\<close>

type_synonym conversation = "(str \<times> str) list list"

definition remember :: "conversation \<Rightarrow> str \<Rightarrow> str \<Rightarrow> conversation" where
  "remember conversation_memory user_message response_text =
    (let appended = conversation_memory @
           [[(ascii ''role'', ascii ''user''), (ascii ''content'', user_message)],
            [(ascii ''role'', ascii ''assistant''), (ascii ''content'', response_text)]]
     in if length appended > 20 then drop (length appended - 20) appended else appended)"

text \<open>
  The content of the last message, \<^verbatim>\<open>last_message["content"]\<close>: with no message
  at all the last message is the dict with an empty content; a last message without
  the key \<^verbatim>\<open>content\<close> raises \<^verbatim>\<open>KeyError\<close>, which is \<open>None\<close> here.
\<close>

definition last_message_content :: "(str \<times> str) list list \<Rightarrow> str option" where
  "last_message_content messages =
    (let last_message = (if messages \<noteq> [] then last messages
                         else [(ascii ''role'', ascii ''user''), (ascii ''content'', [])])
     in map_of last_message (ascii ''content''))"

text \<open>The condition \<^verbatim>\<open>use_rag\<close>: the caller's flag and a trigger keyword in the lowercased message.\<close>

definition use_rag_for :: "(str \<Rightarrow> str) \<Rightarrow> user_context \<Rightarrow> str \<Rightarrow> bool" where
  "use_rag_for lower uc user_message =
    (ctx_rag_enabled uc \<and> any_in rag_trigger_keywords (lower user_message))"

text \<open>
  \<^verbatim>\<open>SimpleRAGAgent.process_chat_with_rag\<close>. It returns the envelope and the new
  conversation memory. The \<^verbatim>\<open>KeyError\<close> of the last message's content is turned by
  the outer \<^verbatim>\<open>except\<close> into the degraded envelope, before the memory is touched; a
  refusal of the scope guard returns before the memory is touched too.
\<close>

definition process_chat_with_rag ::
  "(str \<Rightarrow> str) \<Rightarrow> 'j world \<Rightarrow> (chat_payload \<Rightarrow> provider_reply) \<Rightarrow> ('j respuesta \<Rightarrow> str) \<Rightarrow>
   (str \<rightharpoonup> conversation) \<Rightarrow> (str \<times> str) list list \<Rightarrow> user_context \<Rightarrow>
   chat_response_structured \<times> (str \<rightharpoonup> conversation)"
where
  "process_chat_with_rag lower w post json_dumps memory messages uc =
    (case last_message_content messages of
       None \<Rightarrow> (degraded_envelope uc, memory)
     | Some user_message \<Rightarrow>
         (case check_mexico_restriction lower user_message of
            (is_mexico_related, restriction_message) \<Rightarrow>
              if \<not> is_mexico_related
              then (refusal_envelope restriction_message uc, memory)
              else
                let sid = or_default (ctx_session_id uc) (ascii ''default'');
                    conversation_memory = (case memory sid of None \<Rightarrow> [] | Some c \<Rightarrow> c);
                    entities = extract_entities_from_message lower user_message;
                    use_rag = use_rag_for lower uc user_message
                in case answer_branch lower w post json_dumps uc user_message use_rag of
                     (response_text, used_rag, used_sources, level) \<Rightarrow>
                       (\<lparr>response = response_text,
                         confidence = level,
                         sources = used_sources,
                         suggested_actions = take 5 (suggest_actions uc entities),
                         follow_up_questions = take 3 (follow_up uc entities),
                         model_used = cerebras_model,
                         session_id = sid,
                         memory_used = True,
                         rag_enabled = used_rag,
                         entity_data =
                           Some \<lparr>states_mentioned = entities,
                                 entities_general = entities,
                                 intent = (if used_rag then ascii ''rag_analysis''
                                           else ascii ''general_analysis'')\<rparr>\<rparr>,
                        memory(sid \<mapsto>
                          remember conversation_memory user_message response_text))))"

text \<open>
  The agent serving a sequence of requests, one after the other, each with its own
  world, provider, messages and user context.
\<close>

fun serve ::
  "(str \<Rightarrow> str) \<Rightarrow> (str \<rightharpoonup> conversation) \<Rightarrow>
   ('j world \<times> (chat_payload \<Rightarrow> provider_reply) \<times> ('j respuesta \<Rightarrow> str) \<times>
    (str \<times> str) list list \<times> user_context) list \<Rightarrow> (str \<rightharpoonup> conversation)"
where
  "serve lower memory [] = memory"
| "serve lower memory ((w, post, json_dumps, messages, uc) # requests) =
     serve lower (snd (process_chat_with_rag lower w post json_dumps memory messages uc))
       requests"

text \<open>
  The provider has failed on a request when the client raised or the status is not
  200, the two cases in which \<open>chat_completion\<close> builds its error dict without reading
  the body.
\<close>

definition provider_failed :: "provider_reply \<Rightarrow> bool" where
  "provider_failed reply =
    (case reply of Responded code body_text parsed \<Rightarrow> code \<noteq> 200 | Unreachable e \<Rightarrow> True)"

text \<open>A provider that answers every request with the status 500, and one that answers with a text.\<close>

definition failing_provider :: "chat_payload \<Rightarrow> provider_reply" where
  "failing_provider payload = Responded 500 (ascii ''down'') (Inl (PyException []))"

definition answering_provider :: "chat_payload \<Rightarrow> provider_reply" where
  "answering_provider payload =
     Responded 200 []
       (Inr \<lparr>body_error = None,
             body_choices = Some [\<lparr>choice_message =
                                     Some \<lparr>message_content = Some (ascii ''Hola'')\<rparr>\<rparr>]\<rparr>)"

definition example_context :: user_context where
  "example_context =
     \<lparr>ctx_session_id = Some (ascii ''s''), ctx_current_state = None, ctx_rag_enabled = True\<rparr>"

definition example_messages :: "str \<Rightarrow> (str \<times> str) list list" where
  "example_messages text = [[(ascii ''role'', ascii ''user''), (ascii ''content'', text)]]"

text \<open>A conversation of twenty messages, numbered.\<close>

definition twenty_messages :: conversation where
  "twenty_messages = map (\<lambda>n. [(ascii ''role'', ascii ''user''), (ascii ''content'', [n])]) [0..<20]"

section \<open>Facts about strings\<close>

lemma str_in_iff: "str_in needle s \<longleftrightarrow> (\<exists>before after. s = before @ needle @ after)"
proof (induction s)
  case Nil
  then show ?case by auto
next
  case (Cons c cs)
  show ?case
  proof
    assume "str_in needle (c # cs)"
    then consider "prefix needle (c # cs)" | "str_in needle cs" by auto
    then show "\<exists>before after. c # cs = before @ needle @ after"
    proof cases
      case 1
      then obtain after where "c # cs = needle @ after" by (auto simp: prefix_def)
      then have "c # cs = [] @ needle @ after" by simp
      then show ?thesis by blast
    next
      case 2
      with Cons obtain before after where "cs = before @ needle @ after" by auto
      then have "c # cs = (c # before) @ needle @ after" by simp
      then show ?thesis by blast
    qed
  next
    assume "\<exists>before after. c # cs = before @ needle @ after"
    then obtain before after where eq: "c # cs = before @ needle @ after" by blast
    show "str_in needle (c # cs)"
    proof (cases before)
      case Nil
      with eq have "prefix needle (c # cs)" by (simp add: prefix_def)
      then show ?thesis by simp
    next
      case (Cons b bs)
      with eq have "cs = bs @ needle @ after" by simp
      with Cons.IH have "str_in needle cs" by blast
      then show ?thesis by simp
    qed
  qed
qed

lemma str_in_empty_haystack: "str_in needle [] \<longleftrightarrow> needle = []"
  by simp

section \<open>The scope guard decides by the two keyword scans\<close>

text \<open>
  C1. For every message: if the lowercased message contains a substring from the
  foreign-country list, the guard returns the pair (False, foreign-country refusal),
  also when a Mexican keyword occurs as well; otherwise it returns (True, empty text)
  if the lowercased message contains a substring from the Mexican list, and
  (False, Mexico-only refusal) if it contains none. The message whose lowercase form
  is empty is rejected with the Mexico-only refusal.
\<close>

theorem check_mexico_restriction_cases:
  "((\<exists>country \<in> set external_countries. str_in country (lower message)) \<longrightarrow>
      check_mexico_restriction lower message = (False, external_refusal))
   \<and> (\<not> (\<exists>country \<in> set external_countries. str_in country (lower message)) \<and>
      (\<exists>indicator \<in> set mexico_indicators. str_in indicator (lower message)) \<longrightarrow>
      check_mexico_restriction lower message = (True, []))
   \<and> (\<not> (\<exists>country \<in> set external_countries. str_in country (lower message)) \<and>
      \<not> (\<exists>indicator \<in> set mexico_indicators. str_in indicator (lower message)) \<longrightarrow>
      check_mexico_restriction lower message = (False, mexico_only_refusal))
   \<and> (lower message = [] \<longrightarrow>
      check_mexico_restriction lower message = (False, mexico_only_refusal))"
proof -
  have no_empty_country: "[] \<notin> set external_countries"
    by (simp add: external_countries_def ascii_def)
  have no_empty_indicator: "[] \<notin> set mexico_indicators"
    by (simp add: mexico_indicators_def ascii_def)
  have empty: "lower message = [] \<Longrightarrow>
      check_mexico_restriction lower message = (False, mexico_only_refusal)"
  proof -
    assume e: "lower message = []"
    have "\<not> list_ex (\<lambda>country. str_in country []) external_countries"
      using no_empty_country by (auto simp: list_ex_iff)
    moreover have "\<not> list_ex (\<lambda>indicator. str_in indicator []) mexico_indicators"
      using no_empty_indicator by (auto simp: list_ex_iff)
    ultimately show ?thesis
      by (simp add: check_mexico_restriction_def e)
  qed
  show ?thesis
    using empty by (simp add: check_mexico_restriction_def list_ex_iff Let_def)
qed

theorem check_mexico_restriction_cases_witness:
  "check_mexico_restriction ascii_lower (ascii ''Jalisco vs USA'') = (False, external_refusal)
   \<and> check_mexico_restriction ascii_lower (ascii ''Puebla'') = (True, [])
   \<and> check_mexico_restriction ascii_lower (ascii ''Hola'') = (False, mexico_only_refusal)
   \<and> check_mexico_restriction ascii_lower [] = (False, mexico_only_refusal)"
proof -
  have foreign: "\<exists>country \<in> set external_countries.
      str_in country (ascii_lower (ascii ''Jalisco vs USA''))"
    by (simp add: external_countries_def ascii_def ascii_lower_def)
  have home: "\<not> (\<exists>country \<in> set external_countries.
      str_in country (ascii_lower (ascii ''Puebla''))) \<and>
      (\<exists>indicator \<in> set mexico_indicators. str_in indicator (ascii_lower (ascii ''Puebla'')))"
    by (simp add: external_countries_def mexico_indicators_def ascii_def ascii_lower_def)
  have neither: "\<not> (\<exists>country \<in> set external_countries.
      str_in country (ascii_lower (ascii ''Hola''))) \<and>
      \<not> (\<exists>indicator \<in> set mexico_indicators. str_in indicator (ascii_lower (ascii ''Hola'')))"
    by (simp add: external_countries_def mexico_indicators_def ascii_def ascii_lower_def)
  have empty: "ascii_lower [] = []"
    by (simp add: ascii_lower_def)
  from check_mexico_restriction_cases [of ascii_lower "ascii ''Jalisco vs USA''"] foreign
  have 1: "check_mexico_restriction ascii_lower (ascii ''Jalisco vs USA'') =
      (False, external_refusal)"
    by (rule conjunct1 [THEN mp])
  from check_mexico_restriction_cases [of ascii_lower "ascii ''Puebla''"] home
  have 2: "check_mexico_restriction ascii_lower (ascii ''Puebla'') = (True, [])"
    by (rule conjunct2 [THEN conjunct1, THEN mp])
  from check_mexico_restriction_cases [of ascii_lower "ascii ''Hola''"] neither
  have 3: "check_mexico_restriction ascii_lower (ascii ''Hola'') = (False, mexico_only_refusal)"
    by (rule conjunct2 [THEN conjunct2, THEN conjunct1, THEN mp])
  from check_mexico_restriction_cases [of ascii_lower "[]"] empty
  have 4: "check_mexico_restriction ascii_lower [] = (False, mexico_only_refusal)"
    by (rule conjunct2 [THEN conjunct2, THEN conjunct2, THEN mp])
  from 1 2 3 4 show ?thesis by (intro conjI)
qed

section \<open>The classifier walks the priority table\<close>

text \<open>
  C5. The intent is a function of the lowercased message alone: it is what the ordered
  table (comparison, then trend analysis, then recommendations, then similar states,
  then RAG analysis) gives first match wins on the lowercased text, with
  \<^verbatim>\<open>general_analysis\<close> when no keyword of any bucket occurs; two messages with the
  same lowercase form get the same intent.
\<close>

theorem determine_intent_first_match:
  "determine_intent lower message = classify_spec lower message
   \<and> (lower message = lower message' \<longrightarrow>
        determine_intent lower message = determine_intent lower message')"
  by (simp add: determine_intent_def classify_spec_def priority_table_def any_in_def
      list_ex_iff Let_def)

theorem determine_intent_first_match_witness:
  "determine_intent ascii_lower (ascii ''Comparar VS tendencia'') = ascii ''comparison''
   \<and> determine_intent ascii_lower (ascii ''COMO VA'') =
       determine_intent ascii_lower (ascii ''como va'')"
proof -
  have same: "ascii_lower (ascii ''COMO VA'') = ascii_lower (ascii ''como va'')"
    by (simp add: ascii_lower_def ascii_def)
  have table: "classify_spec ascii_lower (ascii ''Comparar VS tendencia'') = ascii ''comparison''"
    by (simp add: classify_spec_def priority_table_def comparison_keywords_def
        ascii_lower_def ascii_def)
  from determine_intent_first_match [of ascii_lower "ascii ''Comparar VS tendencia''"] table
  have 1: "determine_intent ascii_lower (ascii ''Comparar VS tendencia'') = ascii ''comparison''"
    by simp
  from determine_intent_first_match [of ascii_lower "ascii ''COMO VA''" "ascii ''como va''"] same
  have 2: "determine_intent ascii_lower (ascii ''COMO VA'') =
       determine_intent ascii_lower (ascii ''como va'')"
    by (rule conjunct2 [THEN mp])
  from 1 2 show ?thesis by (intro conjI)
qed

section \<open>Facts about the aggregator's loops\<close>


lemma update_map_values:
  "AList.update k (f v) (map (\<lambda>(k', x). (k', f x)) al) =
   map (\<lambda>(k', x). (k', f x)) (AList.update k v al)"
  by (induction al) auto

lemma call_api_no_url:
  "resolved_url api_data sid = [] \<Longrightarrow> call_api w api_data sid = []"
  by (simp add: call_api_def resolved_url_def Let_def)

lemma call_api_failed:
  assumes "failed_fetch (http_get w (resolved_url api_data sid))"
  shows "call_api w api_data sid = []"
proof (cases "http_get w (resolved_url api_data sid)")
  case (Inl e)
  then show ?thesis by (simp add: call_api_def resolved_url_def Let_def)
next
  case (Inr answer)
  show ?thesis
  proof (cases "json answer")
    case (Inl e)
    with Inr show ?thesis by (simp add: call_api_def resolved_url_def Let_def)
  next
    case got: (Inr payload)
    with Inr assms have "status answer \<noteq> 200" by (simp add: failed_fetch_def)
    with Inr show ?thesis by (simp add: call_api_def resolved_url_def Let_def)
  qed
qed

lemma call_api_fetched:
  assumes "resolved_url api_data sid \<noteq> []"
    and "http_get w (resolved_url api_data sid) = Inr answer"
    and "status answer = 200" and "json answer = Inr payload"
  shows "call_api w api_data sid =
    [\<lparr>nombre = (case apis_name api_data of None \<Rightarrow> [] | Some n \<Rightarrow> n),
      url = resolved_url api_data sid, datos = payload\<rparr>]"
  using assms by (simp add: call_api_def resolved_url_def Let_def)

lemma not_failed_fetch:
  assumes "\<not> failed_fetch outcome"
  obtains answer payload where
    "outcome = Inr answer" "status answer = 200" "json answer = Inr payload"
proof (cases outcome)
  case (Inl e)
  with assms show ?thesis by (simp add: failed_fetch_def)
next
  case (Inr answer)
  with assms have ok: "status answer = 200" by (simp add: failed_fetch_def)
  show ?thesis
  proof (cases "json answer")
    case (Inl e)
    with Inr assms show ?thesis by (simp add: failed_fetch_def)
  next
    case got: (Inr payload)
    with Inr ok that show ?thesis by blast
  qed
qed


lemma call_api_url_changed:
  assumes "failed_fetch r"
  shows "call_api (w\<lparr>http_get := (http_get w)(src := r)\<rparr>) api_data sid =
         filter (\<lambda>entry. url entry \<noteq> src) (call_api w api_data sid)"
proof -
  let ?w' = "w\<lparr>http_get := (http_get w)(src := r)\<rparr>"
  let ?target = "resolved_url api_data sid"
  show ?thesis
  proof (cases "?target = []")
    case True
    then show ?thesis by (simp add: call_api_no_url)
  next
    case url: False
    show ?thesis
    proof (cases "failed_fetch (http_get w ?target)")
      case True
      have "failed_fetch (http_get ?w' ?target)"
        using True assms by simp
      then have "call_api ?w' api_data sid = []" by (rule call_api_failed)
      moreover from True have "call_api w api_data sid = []" by (rule call_api_failed)
      ultimately show ?thesis by simp
    next
      case False
      then obtain answer payload where ok: "http_get w ?target = Inr answer"
          "status answer = 200" "json answer = Inr payload"
        by (rule not_failed_fetch)
      note old = call_api_fetched [OF url ok]
      show ?thesis
      proof (cases "?target = src")
        case True
        with assms have "failed_fetch (http_get ?w' ?target)" by simp
        then have "call_api ?w' api_data sid = []" by (rule call_api_failed)
        with old True show ?thesis by simp
      next
        case differs: False
        then have "http_get ?w' ?target = Inr answer" using ok(1) by simp
        from call_api_fetched [OF url this ok(2,3)] old differs show ?thesis by simp
      qed
    qed
  qed
qed

text \<open>
  Two worlds that differ only in the outcome of the GET, where every source gives in
  the second world what it gives in the first with the entries of \<open>src\<close> filtered out.
\<close>

lemma fetch_related_apis_filtered:
  assumes "apis w' = apis w"
    and "\<And>api_data. call_api w' api_data sid = filter keep (call_api w api_data sid)"
  shows "fetch_related_apis w' sid api_ids (filter keep fetched) =
         map_sum (\<lambda>e. e) (filter keep) (fetch_related_apis w sid api_ids fetched)"
proof (induction api_ids arbitrary: fetched)
  case Nil
  show ?case by simp
next
  case (Cons api_id api_ids)
  show ?case
  proof (cases "apis w")
    case (Inl e)
    with assms(1) show ?thesis by simp
  next
    case (Inr docs)
    show ?thesis
    proof (cases "find (\<lambda>d. api_doc_id d = api_id) docs")
      case None
      with Inr assms(1) Cons.IH [of fetched] show ?thesis by simp
    next
      case (Some api_data)
      from Cons.IH [of "fetched @ call_api w api_data sid"]
      have "fetch_related_apis w' sid api_ids
              (filter keep fetched @ call_api w' api_data sid) =
            map_sum (\<lambda>e. e) (filter keep)
              (fetch_related_apis w sid api_ids (fetched @ call_api w api_data sid))"
        by (simp add: assms(2))
      with Inr Some assms(1) show ?thesis by simp
    qed
  qed
qed

lemma build_parametro_filtered:
  assumes "apis w' = apis w" and "special_text w' = special_text w"
    and "\<And>api_data sid. call_api w' api_data sid =
           filter (\<lambda>entry. url entry \<noteq> src) (call_api w api_data sid)"
  shows "build_parametro w' eid sid_opt param_doc param_name =
         map_sum (\<lambda>e. e) (drop_source src) (build_parametro w eid sid_opt param_doc param_name)"
proof -
  have fetch: "fetch_related_apis w' sid api_ids [] =
      map_sum (\<lambda>e. e) (filter (\<lambda>entry. url entry \<noteq> src)) (fetch_related_apis w sid api_ids [])"
    for sid api_ids
    using fetch_related_apis_filtered [of w' w sid "\<lambda>entry. url entry \<noteq> src" api_ids "[]"]
      assms(1,3) by simp
  show ?thesis
  proof (cases "special_text w")
    case (Inl e)
    with assms(2) show ?thesis by (simp add: build_parametro_def)
  next
    case (Inr texts)
    show ?thesis
    proof (cases sid_opt)
      case None
      with Inr assms(2) show ?thesis
        by (simp add: build_parametro_def drop_source_def Let_def)
    next
      case (Some sid)
      show ?thesis
      proof (cases "fetch_related_apis w sid
          (case related_apis param_doc of None \<Rightarrow> [] | Some ids \<Rightarrow> ids) []")
        case (Inl e)
        with Inr Some assms(2) fetch [of sid] show ?thesis
          by (simp add: build_parametro_def drop_source_def Let_def)
      next
        case got: (Inr fetched)
        with Inr Some assms(2) fetch [of sid] show ?thesis
          by (simp add: build_parametro_def drop_source_def Let_def)
      qed
    qed
  qed
qed

lemma collect_parametros_filtered:
  assumes "apis w' = apis w" and "special_text w' = special_text w"
    and "\<And>api_data sid. call_api w' api_data sid =
           filter (\<lambda>entry. url entry \<noteq> src) (call_api w api_data sid)"
  shows "collect_parametros w' eid sid_opt param_docs
           (map (\<lambda>(param_name, p). (param_name, drop_source src p)) parametros_data) =
         map_sum (\<lambda>e. e) (map (\<lambda>(param_name, p). (param_name, drop_source src p)))
           (collect_parametros w eid sid_opt param_docs parametros_data)"
proof (induction param_docs arbitrary: parametros_data)
  case Nil
  show ?case by simp
next
  case (Cons param_doc param_docs)
  note built = build_parametro_filtered [OF assms, of eid sid_opt param_doc]
  show ?case
  proof (cases "name_field param_doc")
    case None
    with Cons.IH show ?thesis by simp
  next
    case (Some param_name)
    show ?thesis
    proof (cases "param_name = []")
      case True
      with Some Cons.IH show ?thesis by simp
    next
      case False
      show ?thesis
      proof (cases "build_parametro w eid sid_opt param_doc param_name")
        case (Inl e)
        with Some False built [of param_name] show ?thesis by simp
      next
        case (Inr p)
        from Cons.IH [of "AList.update param_name p parametros_data"]
        have "collect_parametros w' eid sid_opt param_docs
                (AList.update param_name (drop_source src p)
                   (map (\<lambda>(param_name, p). (param_name, drop_source src p)) parametros_data)) =
              map_sum (\<lambda>e. e) (map (\<lambda>(param_name, p). (param_name, drop_source src p)))
                (collect_parametros w eid sid_opt param_docs
                   (AList.update param_name p parametros_data))"
          by (simp add: update_map_values)
        with Inr Some False built [of param_name] show ?thesis by simp
      qed
    qed
  qed
qed








lemma obtener_not_found:
  assumes "states w = Inr docs"
    and "filter (\<lambda>d. states_name d = lower nombre_buscado) docs = []"
  shows "obtener_datos_estado_completo lower w nombre_buscado = None"
  using assms by (simp add: obtener_datos_estado_completo_def)

lemma obtener_found:
  assumes "states w = Inr docs"
    and "filter (\<lambda>d. states_name d = lower nombre_buscado) docs = estado_data # others"
    and "parameters w = Inr param_docs"
  shows "obtener_datos_estado_completo lower w nombre_buscado =
    (case collect_parametros w (state_doc_id estado_data)
            (state_id_replacement_field estado_data) param_docs [] of
       Inl e \<Rightarrow> None
     | Inr parametros_data \<Rightarrow>
         Some \<lparr>estado_id = state_doc_id estado_data, estado_nombre = nombre_buscado,
               state_id_replacement = state_id_replacement_field estado_data,
               parametros = parametros_data\<rparr>)"
  using assms by (simp add: obtener_datos_estado_completo_def)

lemma obtener_unreadable:
  assumes "(\<exists>e. states w = Inl e) \<or> (\<exists>e. parameters w = Inl e)"
  shows "obtener_datos_estado_completo lower w nombre_buscado = None"
proof (cases "states w")
  case (Inl e)
  then show ?thesis by (simp add: obtener_datos_estado_completo_def)
next
  case (Inr docs)
  with assms obtain e where unreadable: "parameters w = Inl e" by auto
  show ?thesis
  proof (cases "filter (\<lambda>d. states_name d = lower nombre_buscado) docs")
    case Nil
    with Inr show ?thesis by (rule obtener_not_found)
  next
    case (Cons estado_data others)
    with Inr unreadable show ?thesis by (simp add: obtener_datos_estado_completo_def)
  qed
qed

lemma example_view_upper:
  "obtener_datos_estado_completo ascii_lower example_world (ascii ''Jalisco'') =
     Some example_view"
  by (simp add: obtener_datos_estado_completo_def example_world_def example_catalog_def
      example_view_def example_seguridad_def ascii_lower_def ascii_def
      build_parametro_def call_api_def replace_def)

lemma example_view_lower:
  "obtener_datos_estado_completo ascii_lower example_world (ascii ''jalisco'') =
     Some (example_view\<lparr>estado_nombre := ascii ''jalisco''\<rparr>)"
  by (simp add: obtener_datos_estado_completo_def example_world_def example_catalog_def
      example_view_def example_seguridad_def ascii_lower_def ascii_def
      build_parametro_def call_api_def replace_def)

section \<open>Aggregation and the spelling of the state name\<close>

text \<open>
  C3, as the code has it. Two spellings of a state name with the same lowercase form
  give the same outcome, and on success views that agree in the state id, the API id
  and every parameter; the field \<^verbatim>\<open>nombre\<close> repeats the spelling the caller used,
  so the two views differ there.
\<close>

theorem aggregate_same_up_to_nombre:
  assumes "lower spelling = lower other_spelling"
  shows "obtener_datos_estado_completo lower w spelling =
         map_option (\<lambda>v. v\<lparr>estado_nombre := spelling\<rparr>)
           (obtener_datos_estado_completo lower w other_spelling)"
proof (cases "states w")
  case (Inl e)
  then show ?thesis by (simp add: obtener_unreadable)
next
  case (Inr docs)
  show ?thesis
  proof (cases "filter (\<lambda>d. states_name d = lower spelling) docs")
    case Nil
    with Inr assms show ?thesis by (simp add: obtener_not_found)
  next
    case (Cons estado_data others)
    show ?thesis
    proof (cases "parameters w")
      case (Inl e)
      then show ?thesis by (simp add: obtener_unreadable)
    next
      case params: (Inr param_docs)
      from Cons assms have other: "filter (\<lambda>d. states_name d = lower other_spelling) docs =
          estado_data # others" by simp
      show ?thesis
        by (cases "collect_parametros w (state_doc_id estado_data)
                     (state_id_replacement_field estado_data) param_docs []")
           (simp_all add: obtener_found [where lower = lower and nombre_buscado = spelling, OF Inr Cons params]
              obtener_found [where lower = lower and nombre_buscado = other_spelling, OF Inr other params])
    qed
  qed
qed

theorem aggregate_same_up_to_nombre_witness:
  "ascii_lower (ascii ''Jalisco'') = ascii_lower (ascii ''jalisco'') \<and>
   obtener_datos_estado_completo ascii_lower example_world (ascii ''Jalisco'') =
     map_option (\<lambda>v. v\<lparr>estado_nombre := ascii ''Jalisco''\<rparr>)
       (obtener_datos_estado_completo ascii_lower example_world (ascii ''jalisco''))"
proof -
  have same: "ascii_lower (ascii ''Jalisco'') = ascii_lower (ascii ''jalisco'')"
    by (simp add: ascii_lower_def ascii_def)
  from same
    aggregate_same_up_to_nombre [where lower = ascii_lower and spelling = "ascii ''Jalisco''"
      and other_spelling = "ascii ''jalisco''" and w = example_world, OF same]
  show ?thesis by (rule conjI)
qed

text \<open>
  The claim as written, identical content for \<^verbatim>\<open>"Jalisco"\<close> and \<^verbatim>\<open>"jalisco"\<close>,
  fails: both lookups succeed and the two views carry different names.
\<close>

theorem aggregate_nombre_counterexample:
  "map_option estado_nombre
     (obtener_datos_estado_completo ascii_lower example_world (ascii ''Jalisco'')) =
     Some (ascii ''Jalisco'') \<and>
   map_option estado_nombre
     (obtener_datos_estado_completo ascii_lower example_world (ascii ''jalisco'')) =
     Some (ascii ''jalisco'') \<and>
   obtener_datos_estado_completo ascii_lower example_world (ascii ''Jalisco'') \<noteq>
   obtener_datos_estado_completo ascii_lower example_world (ascii ''jalisco'')"
proof -
  have upper: "map_option estado_nombre
     (obtener_datos_estado_completo ascii_lower example_world (ascii ''Jalisco'')) =
     Some (ascii ''Jalisco'')"
    by (simp add: example_view_upper example_view_def)
  have lower: "map_option estado_nombre
     (obtener_datos_estado_completo ascii_lower example_world (ascii ''jalisco'')) =
     Some (ascii ''jalisco'')"
    by (simp add: example_view_lower)
  have "ascii ''Jalisco'' \<noteq> ascii ''jalisco''"
    by (simp add: ascii_def)
  with upper lower have "obtener_datos_estado_completo ascii_lower example_world (ascii ''Jalisco'') \<noteq>
   obtener_datos_estado_completo ascii_lower example_world (ascii ''jalisco'')"
    by (metis option.inject)
  with upper lower show ?thesis by (intro conjI)
qed

section \<open>What makes aggregation return nothing\<close>





section \<open>What a view holds\<close>


section \<open>A metric source that fails\<close>

lemma length_without:
  "length (filter (\<lambda>x. f x = a) xs) = 1 \<Longrightarrow>
   Suc (length (filter (\<lambda>x. f x \<noteq> a) xs)) = length xs"
  using sum_length_filter_compl [of "\<lambda>x. f x = a" xs] by simp

text \<open>
  C8. Take any world and let the GET of one URL fail instead (a raise, a status other
  than 200, or a body that is not JSON). Aggregation returns a view exactly when it
  did before, so the failure raises nothing; the view is the one of before with the
  entries fetched from that URL taken out of the metric lists, so every other source
  and every other parameter keeps its data; and a metric list that held one entry from
  that URL is shorter by one.
\<close>

theorem failed_source_is_dropped:
  assumes "failed_fetch r"
  shows "obtener_datos_estado_completo lower (w\<lparr>http_get := (http_get w)(src := r)\<rparr>)
           nombre_buscado =
         map_option (without_source src) (obtener_datos_estado_completo lower w nombre_buscado)
    \<and> (length (filter (\<lambda>entry. url entry = src) (datos_apis p)) = 1 \<longrightarrow>
         Suc (length (datos_apis (drop_source src p))) = length (datos_apis p))"
proof
  let ?w' = "w\<lparr>http_get := (http_get w)(src := r)\<rparr>"
  show "obtener_datos_estado_completo lower ?w' nombre_buscado =
         map_option (without_source src) (obtener_datos_estado_completo lower w nombre_buscado)"
  proof (cases "states w")
    case (Inl e)
    then show ?thesis by (simp add: obtener_unreadable)
  next
    case (Inr docs)
    then have docs': "states ?w' = Inr docs" by simp
    show ?thesis
    proof (cases "filter (\<lambda>d. states_name d = lower nombre_buscado) docs")
      case Nil
      with Inr docs' show ?thesis by (simp add: obtener_not_found)
    next
      case (Cons estado_data others)
      show ?thesis
      proof (cases "parameters w")
        case (Inl e)
        then show ?thesis by (simp add: obtener_unreadable)
      next
        case params: (Inr param_docs)
        then have params': "parameters ?w' = Inr param_docs" by simp
        have "collect_parametros ?w' (state_doc_id estado_data)
                (state_id_replacement_field estado_data) param_docs
                (map (\<lambda>(param_name, p). (param_name, drop_source src p)) []) =
              map_sum (\<lambda>e. e) (map (\<lambda>(param_name, p). (param_name, drop_source src p)))
                (collect_parametros w (state_doc_id estado_data)
                   (state_id_replacement_field estado_data) param_docs [])"
          by (rule collect_parametros_filtered) (simp_all add: call_api_url_changed [OF assms])
        then have collected: "collect_parametros ?w' (state_doc_id estado_data)
                (state_id_replacement_field estado_data) param_docs [] =
              map_sum (\<lambda>e. e) (map (\<lambda>(param_name, p). (param_name, drop_source src p)))
                (collect_parametros w (state_doc_id estado_data)
                   (state_id_replacement_field estado_data) param_docs [])"
          by simp
        note old = obtener_found [where lower = lower and nombre_buscado = nombre_buscado,
            OF Inr Cons params]
        note new = obtener_found [where lower = lower and nombre_buscado = nombre_buscado,
            OF docs' Cons params']
        show ?thesis
          by (cases "collect_parametros w (state_doc_id estado_data)
                       (state_id_replacement_field estado_data) param_docs []")
             (simp_all add: old new collected without_source_def)
      qed
    qed
  qed
next
  show "length (filter (\<lambda>entry. url entry = src) (datos_apis p)) = 1 \<longrightarrow>
         Suc (length (datos_apis (drop_source src p))) = length (datos_apis p)"
    by (simp add: drop_source_def length_without)
qed


theorem failed_source_is_dropped_witness:
  "failed_fetch (Inr \<lparr>status = 503, json = Inl (PyException [])\<rparr> ::
      py_exception + nat http_response)
   \<and> obtener_datos_estado_completo ascii_lower degraded_world (ascii ''Jalisco'') =
       map_option (without_source (ascii ''http://x/14''))
         (obtener_datos_estado_completo ascii_lower example_world (ascii ''Jalisco''))
   \<and> Suc (length (datos_apis (drop_source (ascii ''http://x/14'') example_seguridad))) =
       length (datos_apis example_seguridad)"
proof -
  have failed: "failed_fetch (Inr \<lparr>status = 503, json = Inl (PyException [])\<rparr> ::
      py_exception + nat http_response)"
    by (simp add: failed_fetch_def)
  have one: "length (filter (\<lambda>entry. url entry = ascii ''http://x/14'')
      (datos_apis example_seguridad)) = 1"
    by (simp add: example_seguridad_def)
  note dropped = failed_source_is_dropped [where lower = ascii_lower and w = example_world
      and src = "ascii ''http://x/14''" and nombre_buscado = "ascii ''Jalisco''"
      and p = example_seguridad, OF failed]
  from dropped have view: "obtener_datos_estado_completo ascii_lower degraded_world
      (ascii ''Jalisco'') =
       map_option (without_source (ascii ''http://x/14''))
         (obtener_datos_estado_completo ascii_lower example_world (ascii ''Jalisco''))"
    unfolding degraded_world_def by (rule conjunct1)
  from dropped one have shorter:
    "Suc (length (datos_apis (drop_source (ascii ''http://x/14'') example_seguridad))) =
       length (datos_apis example_seguridad)"
    by (rule conjunct2 [THEN mp])
  from failed view shorter show ?thesis by (rule conjI [OF _ conjI])
qed

lemma example_not_found:
  "obtener_datos_estado_completo ascii_lower example_world (ascii ''Sonora'') = None"
  by (simp add: obtener_datos_estado_completo_def example_world_def ascii_lower_def ascii_def)

section \<open>The similar-states tool finds nothing\<close>

text \<open>
  C9, as the code has it. When the lookup of the reference state returns, the tool
  returns the successful result with an empty list of similar states: the loop runs
  over the empty result list. When the lookup raises, as it does with the 404 for a
  state that is not found, the tool returns the failure result, with
  \<^verbatim>\<open>success\<close> false and no list.
\<close>

theorem buscar_estados_similares_no_op:
  "(consulta_estado_con_rag lower w estado_referencia (Some [parametro]) = Inr datos_referencia \<longrightarrow>
      buscar_estados_similares lower w now estado_referencia parametro =
        Encontrados estado_referencia parametro [] True now)
   \<and> (consulta_estado_con_rag lower w estado_referencia (Some [parametro]) = Inl e \<longrightarrow>
      buscar_estados_similares lower w now estado_referencia parametro =
        Fallida estado_referencia parametro e)"
  by (simp add: buscar_estados_similares_def)

theorem buscar_estados_similares_no_op_witness:
  "buscar_estados_similares ascii_lower example_world (ascii ''2026'') (ascii ''Jalisco'')
     (ascii ''Seguridad'') =
     Encontrados (ascii ''Jalisco'') (ascii ''Seguridad'') [] True (ascii ''2026'')
   \<and> buscar_estados_similares ascii_lower example_world (ascii ''2026'') (ascii ''Sonora'')
     (ascii ''Seguridad'') =
     Fallida (ascii ''Sonora'') (ascii ''Seguridad'')
       (HTTPException 404
          (ascii ''No se encontraron datos para el estado '' @ ascii ''Sonora''))"
proof -
  have found: "consulta_estado_con_rag ascii_lower example_world (ascii ''Jalisco'')
      (Some [ascii ''Seguridad'']) =
      Inr (projr (consulta_estado_con_rag ascii_lower example_world (ascii ''Jalisco'')
        (Some [ascii ''Seguridad''])))"
    by (simp add: consulta_estado_con_rag_def example_view_upper)
  have missing: "consulta_estado_con_rag ascii_lower example_world (ascii ''Sonora'')
      (Some [ascii ''Seguridad'']) =
      Inl (HTTPException 404
          (ascii ''No se encontraron datos para el estado '' @ ascii ''Sonora''))"
    by (simp add: consulta_estado_con_rag_def example_not_found)
  from buscar_estados_similares_no_op [where lower = ascii_lower and w = example_world
      and estado_referencia = "ascii ''Jalisco''" and parametro = "ascii ''Seguridad''"
      and now = "ascii ''2026''"] found
  have 1: "buscar_estados_similares ascii_lower example_world (ascii ''2026'') (ascii ''Jalisco'')
     (ascii ''Seguridad'') =
     Encontrados (ascii ''Jalisco'') (ascii ''Seguridad'') [] True (ascii ''2026'')"
    by (rule conjunct1 [THEN mp])
  from buscar_estados_similares_no_op [where lower = ascii_lower and w = example_world
      and estado_referencia = "ascii ''Sonora''" and parametro = "ascii ''Seguridad''"
      and now = "ascii ''2026''"] missing
  have 2: "buscar_estados_similares ascii_lower example_world (ascii ''2026'') (ascii ''Sonora'')
     (ascii ''Seguridad'') =
     Fallida (ascii ''Sonora'') (ascii ''Seguridad'')
       (HTTPException 404
          (ascii ''No se encontraron datos para el estado '' @ ascii ''Sonora''))"
    by (rule conjunct2 [THEN mp])
  from 1 2 show ?thesis by (rule conjI)
qed

text \<open>
  The claim as written, a successful result for every reference state, fails for a
  reference state that is not in the catalog.
\<close>

theorem buscar_estados_similares_counterexample:
  "success (buscar_estados_similares ascii_lower example_world (ascii ''2026'')
     (ascii ''Sonora'') (ascii ''Seguridad'')) = False"
  by (simp add: buscar_estados_similares_def consulta_estado_con_rag_def example_not_found)

section \<open>Facts about the chat agent\<close>

lemma generate_response_provider_failed:
  assumes "provider_failed (post \<lparr>payload_messages =
      [[(ascii ''role'', ascii ''system''), (ascii ''content'', system_prompt)],
       [(ascii ''role'', ascii ''user''), (ascii ''content'', user_message)]],
      payload_temperature = temperature, payload_max_completion_tokens = max_tokens,
      payload_stream = False, payload_top_p = 1, payload_reasoning_effort = ascii ''high''\<rparr>)"
  shows "\<exists>failure. generate_response post system_prompt user_message temperature max_tokens =
           ascii ''Error: '' @ failure"
proof (cases "post \<lparr>payload_messages =
      [[(ascii ''role'', ascii ''system''), (ascii ''content'', system_prompt)],
       [(ascii ''role'', ascii ''user''), (ascii ''content'', user_message)]],
      payload_temperature = temperature, payload_max_completion_tokens = max_tokens,
      payload_stream = False, payload_top_p = 1, payload_reasoning_effort = ascii ''high''\<rparr>")
  case (Responded code body_text parsed)
  with assms have "code \<noteq> 200" by (simp add: provider_failed_def)
  with Responded show ?thesis
    by (simp add: generate_response_def chat_completion_def)
next
  case (Unreachable e)
  then show ?thesis
    by (cases e) (simp add: generate_response_def chat_completion_def)
qed

lemma generate_response_all_failed:
  "\<forall>payload. provider_failed (post payload) \<Longrightarrow>
   \<exists>failure. generate_response post system_prompt user_message temperature max_tokens =
     ascii ''Error: '' @ failure"
  by (rule generate_response_provider_failed) blast

lemma answer_branch_plain:
  "answer_branch lower w post json_dumps uc user_message False =
     (generate_response post plain_system_prompt user_message 0.7 2000, False,
      [ascii ''Base de datos MX32'', ascii ''Cerebras AI''], 0.8)"
  by (simp add: answer_branch_def)

lemma answer_branch_found:
  "consulta_estado_con_rag lower w (or_default (ctx_current_state uc) (ascii ''jalisco'')) None =
     Inr rag_data \<Longrightarrow>
   answer_branch lower w post json_dumps uc user_message True =
     (generate_response post
        (rag_system_prompt (or_default (ctx_current_state uc) (ascii ''jalisco''))
           (json_dumps rag_data))
        user_message 0.7 2000,
      True, [ascii ''Base de datos MX32'', ascii ''RAG Analysis'', ascii ''Cerebras AI''], 0.9)"
  by (simp add: answer_branch_def)

lemma answer_branch_raised:
  "consulta_estado_con_rag lower w (or_default (ctx_current_state uc) (ascii ''jalisco'')) None =
     Inl e \<Longrightarrow>
   answer_branch lower w post json_dumps uc user_message True =
     (generate_response post fallback_system_prompt user_message 0.7 2000, False,
      [ascii ''Base de datos MX32'', ascii ''Cerebras AI''], 0.8)"
  by (simp add: answer_branch_def)

text \<open>The request of a message that has a content and passes the scope guard.\<close>

lemma process_allowed:
  assumes "last_message_content messages = Some user_message"
    and "fst (check_mexico_restriction lower user_message)"
    and "answer_branch lower w post json_dumps uc user_message
           (use_rag_for lower uc user_message) = (response_text, used_rag, used_sources, level)"
  shows "process_chat_with_rag lower w post json_dumps memory messages uc =
    (\<lparr>response = response_text, confidence = level, sources = used_sources,
      suggested_actions =
        take 5 (suggest_actions uc (extract_entities_from_message lower user_message)),
      follow_up_questions =
        take 3 (follow_up uc (extract_entities_from_message lower user_message)),
      model_used = cerebras_model,
      session_id = or_default (ctx_session_id uc) (ascii ''default''),
      memory_used = True, rag_enabled = used_rag,
      entity_data =
        Some \<lparr>states_mentioned = extract_entities_from_message lower user_message,
              entities_general = extract_entities_from_message lower user_message,
              intent = (if used_rag then ascii ''rag_analysis''
                        else ascii ''general_analysis'')\<rparr>\<rparr>,
     memory(or_default (ctx_session_id uc) (ascii ''default'') \<mapsto>
       remember (case memory (or_default (ctx_session_id uc) (ascii ''default'')) of
                   None \<Rightarrow> [] | Some c \<Rightarrow> c)
         user_message response_text))"
proof (cases "check_mexico_restriction lower user_message")
  case (Pair is_mexico_related restriction_message)
  with assms(2) have "is_mexico_related" by simp
  with Pair assms(1,3) show ?thesis
    by (simp add: process_chat_with_rag_def Let_def)
qed

lemma remember_window:
  "remember conversation_memory user_message response_text =
     drop (length (conversation_memory @
              [[(ascii ''role'', ascii ''user''), (ascii ''content'', user_message)],
               [(ascii ''role'', ascii ''assistant''), (ascii ''content'', response_text)]]) - 20)
       (conversation_memory @
          [[(ascii ''role'', ascii ''user''), (ascii ''content'', user_message)],
           [(ascii ''role'', ascii ''assistant''), (ascii ''content'', response_text)]])"
  by (simp add: remember_def Let_def)

lemma remember_length: "length (remember conversation_memory user_message response_text) \<le> 20"
  by (simp add: remember_def Let_def)

lemma process_memory:
  "snd (process_chat_with_rag lower w post json_dumps memory messages uc) = memory \<or>
   (\<exists>user_message response_text.
      snd (process_chat_with_rag lower w post json_dumps memory messages uc) =
      memory(or_default (ctx_session_id uc) (ascii ''default'') \<mapsto>
        remember (case memory (or_default (ctx_session_id uc) (ascii ''default'')) of
                    None \<Rightarrow> [] | Some c \<Rightarrow> c)
          user_message response_text))"
proof (cases "last_message_content messages")
  case None
  then show ?thesis by (simp add: process_chat_with_rag_def)
next
  case (Some user_message)
  show ?thesis
  proof (cases "fst (check_mexico_restriction lower user_message)")
    case False
    with Some show ?thesis
      by (cases "check_mexico_restriction lower user_message")
         (simp add: process_chat_with_rag_def)
  next
    case True
    obtain response_text used_rag used_sources level where
      "answer_branch lower w post json_dumps uc user_message
         (use_rag_for lower uc user_message) = (response_text, used_rag, used_sources, level)"
      by (cases "answer_branch lower w post json_dumps uc user_message
                   (use_rag_for lower uc user_message)") auto
    from process_allowed [where lower = lower, OF Some True this] show ?thesis
      by auto
  qed
qed

lemma process_keeps_window:
  assumes "\<forall>sid history. memory sid = Some history \<longrightarrow> length history \<le> 20"
  shows "\<forall>sid history.
    snd (process_chat_with_rag lower w post json_dumps memory messages uc) sid = Some history \<longrightarrow>
    length history \<le> 20"
  using process_memory [of lower w post json_dumps memory messages uc] assms
  by (auto simp: remember_length split: if_splits)

lemma serve_keeps_window:
  "\<forall>sid history. memory sid = Some history \<longrightarrow> length history \<le> 20 \<Longrightarrow>
   \<forall>sid history. serve lower memory requests sid = Some history \<longrightarrow> length history \<le> 20"
proof (induction requests arbitrary: memory)
  case Nil
  then show ?case by simp
next
  case (Cons request requests)
  obtain w post json_dumps messages uc where
    request: "request = (w, post, json_dumps, messages, uc)"
    by (cases request) auto
  from process_keeps_window [OF Cons.prems]
  have "\<forall>sid history.
    snd (process_chat_with_rag lower w post json_dumps memory messages uc) sid = Some history \<longrightarrow>
    length history \<le> 20" .
  from Cons.IH [OF this] request show ?case by simp
qed

section \<open>The conversation window\<close>

text \<open>
  C4. Whatever requests the agent has served since it started, no session's stored
  history is longer than 20 messages. A request leaves the memory as it was (a refusal,
  or a last message without content) or stores, for its session, the history with the
  user's message and the answer appended and cut to its last 20 messages: the most
  recent ones, the oldest dropped.
\<close>

theorem history_window:
  "(\<forall>sid history. serve lower Map.empty requests sid = Some history \<longrightarrow> length history \<le> 20)
   \<and> (snd (process_chat_with_rag lower w post json_dumps memory messages uc) = memory \<or>
      (\<exists>user_message response_text.
         snd (process_chat_with_rag lower w post json_dumps memory messages uc) =
         memory(or_default (ctx_session_id uc) (ascii ''default'') \<mapsto>
           drop (length ((case memory (or_default (ctx_session_id uc) (ascii ''default'')) of
                            None \<Rightarrow> [] | Some c \<Rightarrow> c) @
                   [[(ascii ''role'', ascii ''user''), (ascii ''content'', user_message)],
                    [(ascii ''role'', ascii ''assistant''), (ascii ''content'', response_text)]])
                 - 20)
             ((case memory (or_default (ctx_session_id uc) (ascii ''default'')) of
                 None \<Rightarrow> [] | Some c \<Rightarrow> c) @
              [[(ascii ''role'', ascii ''user''), (ascii ''content'', user_message)],
               [(ascii ''role'', ascii ''assistant''), (ascii ''content'', response_text)]]))))"
proof
  show "\<forall>sid history. serve lower Map.empty requests sid = Some history \<longrightarrow> length history \<le> 20"
    by (rule serve_keeps_window) simp
next
  from process_memory [of lower w post json_dumps memory messages uc]
  show "snd (process_chat_with_rag lower w post json_dumps memory messages uc) = memory \<or>
      (\<exists>user_message response_text.
         snd (process_chat_with_rag lower w post json_dumps memory messages uc) =
         memory(or_default (ctx_session_id uc) (ascii ''default'') \<mapsto>
           drop (length ((case memory (or_default (ctx_session_id uc) (ascii ''default'')) of
                            None \<Rightarrow> [] | Some c \<Rightarrow> c) @
                   [[(ascii ''role'', ascii ''user''), (ascii ''content'', user_message)],
                    [(ascii ''role'', ascii ''assistant''), (ascii ''content'', response_text)]])
                 - 20)
             ((case memory (or_default (ctx_session_id uc) (ascii ''default'')) of
                 None \<Rightarrow> [] | Some c \<Rightarrow> c) @
              [[(ascii ''role'', ascii ''user''), (ascii ''content'', user_message)],
               [(ascii ''role'', ascii ''assistant''), (ascii ''content'', response_text)]])))"
    by (simp only: remember_window)
qed

lemma sonora_allowed: "fst (check_mexico_restriction ascii_lower (ascii ''sonora''))"
  by (simp add: check_mexico_restriction_def external_countries_def mexico_indicators_def
      ascii_lower_def ascii_def)

lemma sonora_no_trigger:
  "\<not> (\<exists>keyword \<in> set rag_trigger_keywords. str_in keyword (ascii_lower (ascii ''sonora'')))"
  by (simp add: rag_trigger_keywords_def ascii_lower_def ascii_def)

lemma sonora_answered:
  "process_chat_with_rag ascii_lower example_world answering_provider (\<lambda>d. []) memory
     (example_messages (ascii ''sonora'')) example_context =
   (\<lparr>response = ascii ''Hola'', confidence = 0.8,
     sources = [ascii ''Base de datos MX32'', ascii ''Cerebras AI''],
     suggested_actions = [], follow_up_questions = [], model_used = cerebras_model,
     session_id = ascii ''s'', memory_used = True, rag_enabled = False,
     entity_data = Some \<lparr>states_mentioned = [], entities_general = [],
                          intent = ascii ''general_analysis''\<rparr>\<rparr>,
    memory(ascii ''s'' \<mapsto>
      remember (case memory (ascii ''s'') of None \<Rightarrow> [] | Some c \<Rightarrow> c)
        (ascii ''sonora'') (ascii ''Hola'')))"
proof -
  have content: "last_message_content (example_messages (ascii ''sonora'')) = Some (ascii ''sonora'')"
    by (simp add: last_message_content_def example_messages_def ascii_def)
  have no_rag: "use_rag_for ascii_lower example_context (ascii ''sonora'') = False"
    using sonora_no_trigger by (simp add: use_rag_for_def any_in_def list_ex_iff)
  have said: "generate_response answering_provider plain_system_prompt (ascii ''sonora'') 0.7 2000 =
      ascii ''Hola''"
    by (simp add: generate_response_def chat_completion_def answering_provider_def)
  have entities: "extract_entities_from_message ascii_lower (ascii ''sonora'') = []"
    by (simp add: extract_entities_from_message_def mexico_keywords_def ascii_lower_def ascii_def)
  have sid: "or_default (ctx_session_id example_context) (ascii ''default'') = ascii ''s''"
    by (simp add: or_default_def example_context_def ascii_def)
  have branch: "answer_branch ascii_lower example_world answering_provider (\<lambda>d. [])
      example_context (ascii ''sonora'') (use_rag_for ascii_lower example_context (ascii ''sonora'')) =
      (ascii ''Hola'', False, [ascii ''Base de datos MX32'', ascii ''Cerebras AI''], 0.8)"
    by (simp add: no_rag answer_branch_plain said)
  have no_actions: "suggest_actions example_context ([] :: str list) = []"
    by (simp add: suggest_actions_def example_context_def)
  have no_questions: "follow_up example_context ([] :: str list) = []"
    by (simp add: follow_up_def example_context_def)
  from process_allowed [where lower = ascii_lower, OF content sonora_allowed branch, of memory]
  show ?thesis
    by (simp only: entities sid no_actions no_questions take.simps if_False)
qed

theorem history_window_witness:
  "serve ascii_lower Map.empty
     [(example_world, answering_provider, (\<lambda>d. []), example_messages (ascii ''sonora''),
       example_context)] (ascii ''s'') =
     Some [[(ascii ''role'', ascii ''user''), (ascii ''content'', ascii ''sonora'')],
           [(ascii ''role'', ascii ''assistant''), (ascii ''content'', ascii ''Hola'')]]
   \<and> length [[(ascii ''role'', ascii ''user''), (ascii ''content'', ascii ''sonora'')],
             [(ascii ''role'', ascii ''assistant''), (ascii ''content'', ascii ''Hola'')]] \<le> 20
   \<and> snd (process_chat_with_rag ascii_lower example_world answering_provider (\<lambda>d. [])
           [ascii ''s'' \<mapsto> twenty_messages] (example_messages (ascii ''sonora''))
           example_context) (ascii ''s'') =
     Some (drop 2 twenty_messages @
           [[(ascii ''role'', ascii ''user''), (ascii ''content'', ascii ''sonora'')],
            [(ascii ''role'', ascii ''assistant''), (ascii ''content'', ascii ''Hola'')]])"
proof -
  let ?turn = "[[(ascii ''role'', ascii ''user''), (ascii ''content'', ascii ''sonora'')],
           [(ascii ''role'', ascii ''assistant''), (ascii ''content'', ascii ''Hola'')]]"
  have served: "serve ascii_lower Map.empty
     [(example_world, answering_provider, (\<lambda>d. []), example_messages (ascii ''sonora''),
       example_context)] (ascii ''s'') = Some ?turn"
    by (simp add: sonora_answered remember_def)
  from history_window [where lower = ascii_lower and requests =
      "[(example_world, answering_provider, (\<lambda>d. []), example_messages (ascii ''sonora''),
         example_context)]"]
  have "\<forall>sid history. serve ascii_lower Map.empty
      [(example_world, answering_provider, (\<lambda>d. []), example_messages (ascii ''sonora''),
        example_context)] sid = Some history \<longrightarrow> length history \<le> 20"
    by (rule conjunct1)
  from this [rule_format, OF served] have short: "length ?turn \<le> 20" .
  have "length twenty_messages = 20" by (simp add: twenty_messages_def)
  then have full: "snd (process_chat_with_rag ascii_lower example_world answering_provider
           (\<lambda>d. []) [ascii ''s'' \<mapsto> twenty_messages] (example_messages (ascii ''sonora''))
           example_context) (ascii ''s'') = Some (drop 2 twenty_messages @ ?turn)"
    by (simp add: sonora_answered remember_def)
  from served short full show ?thesis by (intro conjI)
qed

section \<open>A provider that fails\<close>

text \<open>
  C2, as the code has it. \<open>generate_response\<close> does not raise when the provider fails:
  it returns the text \<^verbatim>\<open>Error: ...\<close>. So a request that has passed the scope guard,
  with the provider failing on every payload, gets an envelope whose answer is that
  error text, with the confidence and the sources of the branch taken: 0.9 and three
  sources with \<^verbatim>\<open>rag_enabled\<close> true when retrieval ran and the state was found,
  0.8 and two sources with \<^verbatim>\<open>rag_enabled\<close> false otherwise.
\<close>

theorem provider_failure_envelope:
  assumes "last_message_content messages = Some user_message"
    and "fst (check_mexico_restriction lower user_message)"
    and "\<forall>payload. provider_failed (post payload)"
    and "envelope = fst (process_chat_with_rag lower w post json_dumps memory messages uc)"
  shows "(\<exists>failure. response envelope = ascii ''Error: '' @ failure)
    \<and> confidence envelope = (if rag_enabled envelope then 0.9 else 0.8)
    \<and> sources envelope =
        (if rag_enabled envelope
         then [ascii ''Base de datos MX32'', ascii ''RAG Analysis'', ascii ''Cerebras AI'']
         else [ascii ''Base de datos MX32'', ascii ''Cerebras AI''])
    \<and> (rag_enabled envelope \<longleftrightarrow>
         use_rag_for lower uc user_message \<and>
         (\<exists>rag_data. consulta_estado_con_rag lower w
            (or_default (ctx_current_state uc) (ascii ''jalisco'')) None = Inr rag_data))"
proof -
  note failed = generate_response_all_failed [OF assms(3)]
  note allowed = process_allowed [where lower = lower, OF assms(1,2)]
  show ?thesis
  proof (cases "use_rag_for lower uc user_message")
    case False
    from failed obtain failure where
      "generate_response post plain_system_prompt user_message 0.7 2000 =
         ascii ''Error: '' @ failure" by blast
    with False assms(4) allowed [of w post json_dumps uc _ False _ "0.8" memory] show ?thesis
      by (simp add: answer_branch_plain)
  next
    case True
    show ?thesis
    proof (cases "consulta_estado_con_rag lower w
            (or_default (ctx_current_state uc) (ascii ''jalisco'')) None")
      case (Inl e)
      from failed obtain failure where
        "generate_response post fallback_system_prompt user_message 0.7 2000 =
           ascii ''Error: '' @ failure" by blast
      with True Inl assms(4) allowed [of w post json_dumps uc _ False _ "0.8" memory]
      show ?thesis
        by (simp add: answer_branch_raised)
    next
      case (Inr rag_data)
      from failed obtain failure where
        "generate_response post
           (rag_system_prompt (or_default (ctx_current_state uc) (ascii ''jalisco''))
              (json_dumps rag_data)) user_message 0.7 2000 =
           ascii ''Error: '' @ failure" by blast
      with True Inr assms(4) allowed [of w post json_dumps uc _ True _ "0.9" memory]
      show ?thesis
        by (simp add: answer_branch_found)
    qed
  qed
qed

lemma sonora_content:
  "last_message_content (example_messages (ascii ''sonora'')) = Some (ascii ''sonora'')"
  by (simp add: last_message_content_def example_messages_def ascii_def)

lemma failing_provider_failed: "\<forall>payload. provider_failed (failing_provider payload)"
  by (simp add: provider_failed_def failing_provider_def)

theorem provider_failure_envelope_witness:
  "(\<exists>failure.
      response (fst (process_chat_with_rag ascii_lower example_world failing_provider
        (\<lambda>d. []) Map.empty (example_messages (ascii ''sonora'')) example_context)) =
      ascii ''Error: '' @ failure)
   \<and> confidence (fst (process_chat_with_rag ascii_lower example_world failing_provider
        (\<lambda>d. []) Map.empty (example_messages (ascii ''sonora'')) example_context)) =
      (if rag_enabled (fst (process_chat_with_rag ascii_lower example_world failing_provider
        (\<lambda>d. []) Map.empty (example_messages (ascii ''sonora'')) example_context))
       then 0.9 else 0.8)"
proof -
  define envelope where "envelope =
    fst (process_chat_with_rag ascii_lower example_world failing_provider
        (\<lambda>d. []) Map.empty (example_messages (ascii ''sonora'')) example_context)"
  note failed = provider_failure_envelope [where lower = ascii_lower,
      OF sonora_content sonora_allowed failing_provider_failed envelope_def]
  from failed have 1: "\<exists>failure. response envelope = ascii ''Error: '' @ failure"
    by (rule conjunct1)
  from failed have 2: "confidence envelope = (if rag_enabled envelope then 0.9 else 0.8)"
    by (rule conjunct2 [THEN conjunct1])
  from 1 2 show ?thesis unfolding envelope_def by (rule conjI)
qed

text \<open>
  Where a request asks about a state, written in ASCII so that the model's lowercase
  is Python's: the guard lets it pass, the flag and the keyword \<^verbatim>\<open>estado\<close> switch
  retrieval on, and no current state makes jalisco the state queried.
\<close>

lemma estado_content:
  "last_message_content (example_messages (ascii ''Analisis del estado'')) =
     Some (ascii ''Analisis del estado'')"
  by (simp add: last_message_content_def example_messages_def ascii_def)

lemma estado_allowed: "fst (check_mexico_restriction ascii_lower (ascii ''Analisis del estado''))"
  by (simp add: check_mexico_restriction_def external_countries_def mexico_indicators_def
      ascii_lower_def ascii_def)

lemma estado_trigger:
  "\<exists>keyword \<in> set rag_trigger_keywords. str_in keyword (ascii_lower (ascii ''Analisis del estado''))"
  by (simp add: rag_trigger_keywords_def ascii_lower_def ascii_def)

lemma estado_use_rag: "use_rag_for ascii_lower example_context (ascii ''Analisis del estado'')"
  using estado_trigger by (simp add: use_rag_for_def any_in_def list_ex_iff example_context_def)

lemma jalisco_queried:
  "or_default (ctx_current_state example_context) (ascii ''jalisco'') = ascii ''jalisco''"
  by (simp add: or_default_def example_context_def)

lemma jalisco_found:
  "consulta_estado_con_rag ascii_lower example_world (ascii ''jalisco'') None =
     Inr (projr (consulta_estado_con_rag ascii_lower example_world (ascii ''jalisco'') None))"
  by (simp add: consulta_estado_con_rag_def example_view_lower)

lemma failing_provider_text:
  "generate_response failing_provider system_prompt user_message temperature max_tokens =
     ascii ''Error: API Error: 500''"
  by (simp add: generate_response_def chat_completion_def failing_provider_def ascii_def)

lemma answering_provider_text:
  "generate_response answering_provider system_prompt user_message temperature max_tokens =
     ascii ''Hola''"
  by (simp add: generate_response_def chat_completion_def answering_provider_def)

lemma estado_branch:
  "answer_branch ascii_lower example_world post (\<lambda>d. []) example_context
     (ascii ''Analisis del estado'')
     (use_rag_for ascii_lower example_context (ascii ''Analisis del estado'')) =
   (generate_response post
      (rag_system_prompt (ascii ''jalisco'')
         ((\<lambda>d. []) (projr (consulta_estado_con_rag ascii_lower example_world
                               (ascii ''jalisco'') None))))
      (ascii ''Analisis del estado'') 0.7 2000,
    True, [ascii ''Base de datos MX32'', ascii ''RAG Analysis'', ascii ''Cerebras AI''], 0.9)"
proof -
  have found: "consulta_estado_con_rag ascii_lower example_world
      (or_default (ctx_current_state example_context) (ascii ''jalisco'')) None =
      Inr (projr (consulta_estado_con_rag ascii_lower example_world (ascii ''jalisco'') None))"
    using jalisco_found by (simp only: jalisco_queried)
  from answer_branch_found [where lower = ascii_lower and json_dumps = "\<lambda>d. []"
      and post = post and user_message = "ascii ''Analisis del estado''", OF found]
  show ?thesis by (simp only: estado_use_rag jalisco_queried)
qed

text \<open>
  The claim as written fails: with the provider answering 500 the envelope of this
  request is not the degraded one. It carries the error text as its answer, the
  confidence 0.9, three sources and \<^verbatim>\<open>rag_enabled\<close> true.
\<close>

theorem provider_failure_counterexample:
  "fst (check_mexico_restriction ascii_lower (ascii ''Analisis del estado''))
   \<and> response (fst (process_chat_with_rag ascii_lower example_world failing_provider
        (\<lambda>d. []) Map.empty (example_messages (ascii ''Analisis del estado'')) example_context)) =
      ascii ''Error: API Error: 500''
   \<and> confidence (fst (process_chat_with_rag ascii_lower example_world failing_provider
        (\<lambda>d. []) Map.empty (example_messages (ascii ''Analisis del estado'')) example_context)) =
      0.9
   \<and> sources (fst (process_chat_with_rag ascii_lower example_world failing_provider
        (\<lambda>d. []) Map.empty (example_messages (ascii ''Analisis del estado'')) example_context)) =
      [ascii ''Base de datos MX32'', ascii ''RAG Analysis'', ascii ''Cerebras AI'']
   \<and> rag_enabled (fst (process_chat_with_rag ascii_lower example_world failing_provider
        (\<lambda>d. []) Map.empty (example_messages (ascii ''Analisis del estado'')) example_context))"
proof -
  note evaluated = process_allowed [where lower = ascii_lower,
      OF estado_content estado_allowed estado_branch [of failing_provider], of Map.empty]
  from estado_allowed evaluated show ?thesis
    by (simp add: failing_provider_text)
qed

section \<open>When retrieval runs\<close>

text \<open>
  C10. For a request that has passed the scope guard: the envelope says
  \<^verbatim>\<open>rag_enabled\<close> only if the caller's flag is set and the lowercased message
  contains one of the trigger keywords; without the flag or without a keyword the
  envelope has \<^verbatim>\<open>rag_enabled\<close> false and the confidence 0.8, and the whole result is
  the same in every world, so nothing was retrieved; and with the flag, a keyword and
  no current state (absent or empty), the state queried is \<^verbatim>\<open>jalisco\<close>: when that
  lookup returns, its data are in the prompt and the envelope has \<^verbatim>\<open>rag_enabled\<close>
  true and the confidence 0.9, and when it raises, the envelope has
  \<^verbatim>\<open>rag_enabled\<close> false and the confidence 0.8.
\<close>

theorem retrieval_only_on_flag_and_keyword:
  assumes "last_message_content messages = Some user_message"
    and "fst (check_mexico_restriction lower user_message)"
    and "envelope = fst (process_chat_with_rag lower w post json_dumps memory messages uc)"
  shows "(rag_enabled envelope \<longrightarrow>
          ctx_rag_enabled uc \<and>
          (\<exists>keyword \<in> set rag_trigger_keywords. str_in keyword (lower user_message)))
    \<and> (\<not> (ctx_rag_enabled uc \<and>
           (\<exists>keyword \<in> set rag_trigger_keywords. str_in keyword (lower user_message))) \<longrightarrow>
        rag_enabled envelope = False \<and> confidence envelope = 0.8 \<and>
        process_chat_with_rag lower other_world post json_dumps memory messages uc =
        process_chat_with_rag lower w post json_dumps memory messages uc)
    \<and> (ctx_rag_enabled uc \<and>
        (\<exists>keyword \<in> set rag_trigger_keywords. str_in keyword (lower user_message)) \<and>
        (ctx_current_state uc = None \<or> ctx_current_state uc = Some []) \<longrightarrow>
        (\<forall>rag_data. consulta_estado_con_rag lower w (ascii ''jalisco'') None = Inr rag_data \<longrightarrow>
           rag_enabled envelope \<and> confidence envelope = 0.9 \<and>
           response envelope =
             generate_response post
               (rag_system_prompt (ascii ''jalisco'') (json_dumps rag_data))
               user_message 0.7 2000) \<and>
        (\<forall>e. consulta_estado_con_rag lower w (ascii ''jalisco'') None = Inl e \<longrightarrow>
           rag_enabled envelope = False \<and> confidence envelope = 0.8))"
proof -
  have use_rag: "use_rag_for lower uc user_message \<longleftrightarrow>
      ctx_rag_enabled uc \<and>
      (\<exists>keyword \<in> set rag_trigger_keywords. str_in keyword (lower user_message))"
    by (simp add: use_rag_for_def any_in_def list_ex_iff)
  note allowed = process_allowed [where lower = lower, OF assms(1,2)]
  have off: "rag_enabled envelope = False \<and> confidence envelope = 0.8 \<and>
        process_chat_with_rag lower other_world post json_dumps memory messages uc =
        process_chat_with_rag lower w post json_dumps memory messages uc"
    if "\<not> use_rag_for lower uc user_message"
    using that assms(3)
      allowed [of w post json_dumps uc _ False _ "0.8" memory]
      allowed [of other_world post json_dumps uc _ False _ "0.8" memory]
    by (simp add: answer_branch_plain)
  have only: "use_rag_for lower uc user_message" if "rag_enabled envelope"
  proof (rule ccontr)
    assume "\<not> use_rag_for lower uc user_message"
    from off [OF this] that show False by simp
  qed
  have on: "(\<forall>rag_data. consulta_estado_con_rag lower w (ascii ''jalisco'') None = Inr rag_data \<longrightarrow>
           rag_enabled envelope \<and> confidence envelope = 0.9 \<and>
           response envelope =
             generate_response post
               (rag_system_prompt (ascii ''jalisco'') (json_dumps rag_data))
               user_message 0.7 2000) \<and>
        (\<forall>e. consulta_estado_con_rag lower w (ascii ''jalisco'') None = Inl e \<longrightarrow>
           rag_enabled envelope = False \<and> confidence envelope = 0.8)"
    if "use_rag_for lower uc user_message"
      and "ctx_current_state uc = None \<or> ctx_current_state uc = Some []"
  proof -
    from that(2) have queried:
      "or_default (ctx_current_state uc) (ascii ''jalisco'') = ascii ''jalisco''"
      by (auto simp: or_default_def)
    show ?thesis
    proof (cases "consulta_estado_con_rag lower w (ascii ''jalisco'') None")
      case (Inl e)
      with that(1) assms(3) queried
        allowed [of w post json_dumps uc _ False _ "0.8" memory]
      show ?thesis by (simp add: answer_branch_raised)
    next
      case (Inr rag_data)
      with that(1) assms(3) queried
        allowed [of w post json_dumps uc _ True _ "0.9" memory]
      show ?thesis by (simp add: answer_branch_found)
    qed
  qed
  from only off on show ?thesis
    unfolding use_rag by blast
qed

theorem retrieval_only_on_flag_and_keyword_witness:
  "rag_enabled (fst (process_chat_with_rag ascii_lower example_world answering_provider
        (\<lambda>d. []) Map.empty (example_messages (ascii ''sonora'')) example_context)) = False
   \<and> confidence (fst (process_chat_with_rag ascii_lower example_world answering_provider
        (\<lambda>d. []) Map.empty (example_messages (ascii ''sonora'')) example_context)) = 0.8
   \<and> rag_enabled (fst (process_chat_with_rag ascii_lower example_world answering_provider
        (\<lambda>d. []) Map.empty (example_messages (ascii ''Analisis del estado'')) example_context))
   \<and> confidence (fst (process_chat_with_rag ascii_lower example_world answering_provider
        (\<lambda>d. []) Map.empty (example_messages (ascii ''Analisis del estado'')) example_context)) =
      0.9"
proof -
  define plain where "plain =
    fst (process_chat_with_rag ascii_lower example_world answering_provider
        (\<lambda>d. []) Map.empty (example_messages (ascii ''sonora'')) example_context)"
  define retrieved where "retrieved =
    fst (process_chat_with_rag ascii_lower example_world answering_provider
        (\<lambda>d. []) Map.empty (example_messages (ascii ''Analisis del estado'')) example_context)"
  have no_keyword: "\<not> (ctx_rag_enabled example_context \<and>
      (\<exists>keyword \<in> set rag_trigger_keywords. str_in keyword (ascii_lower (ascii ''sonora''))))"
    using sonora_no_trigger by simp
  have keyword: "ctx_rag_enabled example_context \<and>
      (\<exists>keyword \<in> set rag_trigger_keywords.
         str_in keyword (ascii_lower (ascii ''Analisis del estado''))) \<and>
      (ctx_current_state example_context = None \<or> ctx_current_state example_context = Some [])"
    using estado_trigger by (simp add: example_context_def)
  from retrieval_only_on_flag_and_keyword [where lower = ascii_lower and other_world = example_world,
      OF sonora_content sonora_allowed plain_def] no_keyword
  have 1: "rag_enabled plain = False \<and> confidence plain = 0.8 \<and>
        process_chat_with_rag ascii_lower example_world answering_provider (\<lambda>d. []) Map.empty
          (example_messages (ascii ''sonora'')) example_context =
        process_chat_with_rag ascii_lower example_world answering_provider (\<lambda>d. []) Map.empty
          (example_messages (ascii ''sonora'')) example_context"
    by (rule conjunct2 [THEN conjunct1, THEN mp])
  from retrieval_only_on_flag_and_keyword [where lower = ascii_lower and other_world = example_world,
      OF estado_content estado_allowed retrieved_def] keyword
  have "(\<forall>rag_data. consulta_estado_con_rag ascii_lower example_world (ascii ''jalisco'') None =
           Inr rag_data \<longrightarrow>
           rag_enabled retrieved \<and> confidence retrieved = 0.9 \<and>
           response retrieved =
             generate_response answering_provider
               (rag_system_prompt (ascii ''jalisco'') ((\<lambda>d. []) rag_data))
               (ascii ''Analisis del estado'') 0.7 2000) \<and>
        (\<forall>e. consulta_estado_con_rag ascii_lower example_world (ascii ''jalisco'') None = Inl e \<longrightarrow>
           rag_enabled retrieved = False \<and> confidence retrieved = 0.8)"
    by (rule conjunct2 [THEN conjunct2, THEN mp])
  then have "\<forall>rag_data. consulta_estado_con_rag ascii_lower example_world (ascii ''jalisco'') None =
           Inr rag_data \<longrightarrow>
           rag_enabled retrieved \<and> confidence retrieved = 0.9 \<and>
           response retrieved =
             generate_response answering_provider
               (rag_system_prompt (ascii ''jalisco'') ((\<lambda>d. []) rag_data))
               (ascii ''Analisis del estado'') 0.7 2000"
    by (rule conjunct1)
  from this [rule_format, OF jalisco_found]
  have 2: "rag_enabled retrieved \<and> confidence retrieved = 0.9" by blast
  from 1 2 show ?thesis unfolding plain_def retrieved_def by blast
qed

end
